theory Spec2Isabelle
  imports Main
begin

section \<open>Values\<close>

text \<open>
  The controllers work on the trees that \<^verbatim>\<open>JSON.parse\<close> and the XML parser return:
  null, booleans, numbers, strings, arrays and objects. An object is its prototype and the
  list of its own entries, in the order \<^verbatim>\<open>Object.entries\<close> enumerates them. The prototype
  is \<^verbatim>\<open>Object.prototype\<close> for an object literal and for what \<^verbatim>\<open>JSON.parse\<close> returns
  (\<open>ObjectProto\<close>); an assignment to \<^verbatim>\<open>__proto__\<close> can replace it by null
  (\<open>NullProto\<close>) or by another object or array (\<open>ValueProto\<close>). Numbers are integers
  here: the code never computes with a number, it only tests whether one is zero. Strings
  are lists of characters; the code looks at a string only through its length, its
  characters by index and equality.
\<close>

datatype 'a proto =
    ObjectProto
  | NullProto
  | ValueProto 'a

datatype jv =
    JNull
  | JBool bool
  | JNum int
  | JStr string
  | JArr "jv list"
  | JObj "jv proto" "(string \<times> jv) list"

type_synonym entries = "(string \<times> jv) list"

text \<open>An object under construction: its prototype and its own entries so far.\<close>

type_synonym obj = "jv proto \<times> entries"

text \<open>An object as a literal or a JSON text gives it.\<close>

abbreviation JPlain :: "entries \<Rightarrow> jv" where
  "JPlain es \<equiv> JObj ObjectProto es"

subsection \<open>Array indices and the order of own properties\<close>

definition digit_val :: "char \<Rightarrow> nat option" where
  "digit_val c =
     (let n = (of_char c :: nat) in if 48 \<le> n \<and> n \<le> 57 then Some (n - 48) else None)"

fun digits_val :: "string \<Rightarrow> nat \<Rightarrow> nat option" where
  "digits_val [] acc = Some acc"
| "digits_val (c # cs) acc =
     (case digit_val c of None \<Rightarrow> None | Some d \<Rightarrow> digits_val cs (10 * acc + d))"

text \<open>
  A property name is an array index when it is the canonical decimal spelling (no sign, no
  leading zero) of a number below \<open>2^32 - 1\<close>.
\<close>

definition array_index :: "string \<Rightarrow> nat option" where
  "array_index s =
     (case s of
        [] \<Rightarrow> None
      | c # cs \<Rightarrow>
          if c = CHR ''0'' \<and> cs \<noteq> [] then None
          else (case digits_val s 0 of
                  None \<Rightarrow> None
                | Some n \<Rightarrow> if n < 4294967295 then Some n else None))"

text \<open>
  An object enumerates its array-index keys first, in ascending numeric order, and then its
  other keys in the order they were created. \<open>placed_before k k'\<close> says that a new key
  \<open>k\<close> is enumerated before an existing key \<open>k'\<close>.
\<close>

definition placed_before :: "string \<Rightarrow> string \<Rightarrow> bool" where
  "placed_before k k' =
     (case array_index k of
        None \<Rightarrow> False
      | Some i \<Rightarrow> (case array_index k' of None \<Rightarrow> True | Some j \<Rightarrow> i < j))"

fun insert_own :: "string \<Rightarrow> jv \<Rightarrow> entries \<Rightarrow> entries" where
  "insert_own k v [] = [(k, v)]"
| "insert_own k v ((k', v') # es) =
     (if placed_before k k' then (k, v) # (k', v') # es else (k', v') # insert_own k v es)"

text \<open>
  Whether an assignment to a key \<^verbatim>\<open>__proto__\<close> that the object does not own reaches the
  setter of \<^verbatim>\<open>Object.prototype\<close>. The search goes up the prototype chain: it ends at
  null without a setter, and an object on the way that owns a data property of that name
  hides the setter.
\<close>

function (sequential) setter_inherited :: "jv proto \<Rightarrow> bool" where
  "setter_inherited ObjectProto = True"
| "setter_inherited NullProto = False"
| "setter_inherited (ValueProto (JObj p es)) =
     (''__proto__'' \<notin> set (map fst es) \<and> setter_inherited p)"
| "setter_inherited (ValueProto (JArr xs)) = True"
| "setter_inherited (ValueProto v) = False"
  by pat_completeness auto
termination
  by (relation "measure (size_proto size)") auto

text \<open>
  The assignment \<^verbatim>\<open>obj[k] = v\<close>. An own key keeps its place and takes the value. The key
  \<^verbatim>\<open>__proto__\<close>, when it is not an own key and the setter is inherited, creates no entry:
  the setter makes an object, an array or null the new prototype and ignores any other
  value. Every other new key is created in its place of the enumeration order.
\<close>

definition obj_set :: "obj \<Rightarrow> string \<Rightarrow> jv \<Rightarrow> obj" where
  "obj_set ob k v =
     (case ob of
        (p, es) \<Rightarrow>
          if k \<in> set (map fst es)
          then (p, map (\<lambda>e. if fst e = k then (k, v) else e) es)
          else if k = ''__proto__'' \<and> setter_inherited p
          then (case v of
                  JNull \<Rightarrow> (NullProto, es)
                | JObj q m \<Rightarrow> (ValueProto v, es)
                | JArr xs \<Rightarrow> (ValueProto v, es)
                | _ \<Rightarrow> (p, es))
          else (p, insert_own k v es))"

text \<open>The empty object literal \<^verbatim>\<open>{}\<close>.\<close>

definition empty_obj :: obj where
  "empty_obj = (ObjectProto, [])"

definition obj_value :: "obj \<Rightarrow> jv" where
  "obj_value ob = JObj (fst ob) (snd ob)"

section \<open>cleanJson\<close>

text \<open>
  \<^verbatim>\<open>
  const cleanJson = (obj) => {
    if (Array.isArray(obj)) {
      return obj.length === 1 ? cleanJson(obj[0]) : obj.map(cleanJson);
    } else if (typeof obj === "object" && obj !== null) {
      const cleaned = {};
      for (const [key, value] of Object.entries(obj)) {
        if (key === "$") { continue; }
        cleaned[key] = cleanJson(value);
      }
      return cleaned;
    } else { return obj; }
  };
  \<close>
  \<open>cleanJson_map\<close> is \<^verbatim>\<open>obj.map(cleanJson)\<close> and \<open>cleanJson_entries\<close> is the
  \<^verbatim>\<open>for\<close> loop, with \<open>cleaned\<close> as its state.
\<close>

fun cleanJson :: "jv \<Rightarrow> jv"
  and cleanJson_map :: "jv list \<Rightarrow> jv list"
  and cleanJson_entries :: "entries \<Rightarrow> obj \<Rightarrow> obj" where
  "cleanJson (JArr xs) = (case xs of [x] \<Rightarrow> cleanJson x | _ \<Rightarrow> JArr (cleanJson_map xs))"
| "cleanJson (JObj p es) = obj_value (cleanJson_entries es empty_obj)"
| "cleanJson JNull = JNull"
| "cleanJson (JBool b) = JBool b"
| "cleanJson (JNum n) = JNum n"
| "cleanJson (JStr s) = JStr s"
| "cleanJson_map [] = []"
| "cleanJson_map (x # xs) = cleanJson x # cleanJson_map xs"
| "cleanJson_entries [] cleaned = cleaned"
| "cleanJson_entries ((key, val) # es) cleaned =
     (if key = ''$'' then cleanJson_entries es cleaned
      else cleanJson_entries es (obj_set cleaned key (cleanJson val)))"

section \<open>flattenJson\<close>

text \<open>
  \<^verbatim>\<open>
  const flattenJson = (data, parentKey = "", result = {}) => {
    for (let [key, value] of Object.entries(data)) {
      const newKey = parentKey ? `${parentKey}/${key}` : key;
      if (typeof value === "object" && !Array.isArray(value) && value !== null) {
        flattenJson(value, newKey, result);
      } else {
        result[newKey] = value;
      }
    }
    return result;
  };
  \<close>
  \<open>flattenJson_loop\<close> is the \<^verbatim>\<open>for\<close> loop over the entries of \<open>data\<close>; the
  accumulator \<open>result\<close> is shared by every recursive call, so it is threaded through.
\<close>

definition new_key :: "string \<Rightarrow> string \<Rightarrow> string" where
  "new_key parentKey key = (if parentKey \<noteq> [] then parentKey @ ''/'' @ key else key)"

fun flattenJson_loop :: "entries \<Rightarrow> string \<Rightarrow> obj \<Rightarrow> obj" where
  "flattenJson_loop [] parentKey result = result"
| "flattenJson_loop ((key, val) # es) parentKey result =
     (case val of
        JObj p m \<Rightarrow> flattenJson_loop es parentKey (flattenJson_loop m (new_key parentKey key) result)
      | _ \<Rightarrow> flattenJson_loop es parentKey (obj_set result (new_key parentKey key) val))"

text \<open>
  \<^verbatim>\<open>Object.entries\<close> accepts any value but null: an array and a string enumerate
  their indices, a number and a boolean have no own entries.
\<close>

definition digit_char :: "nat \<Rightarrow> char" where
  "digit_char d = char_of (48 + d)"

function string_of_nat :: "nat \<Rightarrow> string" where
  "string_of_nat n =
     (if n < 10 then [digit_char n] else string_of_nat (n div 10) @ [digit_char (n mod 10)])"
  by pat_completeness auto
termination
  by (relation "measure id") auto

declare string_of_nat.simps [simp del]


fun object_entries :: "jv \<Rightarrow> string + entries" where
  "object_entries JNull = Inl ''Cannot convert undefined or null to object''"
| "object_entries (JObj p es) = Inr es"
| "object_entries (JArr xs) = Inr (zip (map string_of_nat [0..<length xs]) xs)"
| "object_entries (JStr s) = Inr (zip (map string_of_nat [0..<length s]) (map (\<lambda>c. JStr [c]) s))"
| "object_entries (JBool b) = Inr []"
| "object_entries (JNum n) = Inr []"

definition flattenJson :: "jv \<Rightarrow> string \<Rightarrow> obj \<Rightarrow> string + obj" where
  "flattenJson data parentKey result =
     (case object_entries data of
        Inl msg \<Rightarrow> Inl msg
      | Inr es \<Rightarrow> Inr (flattenJson_loop es parentKey result))"

text \<open>
  The assignments the loop makes, in the order it makes them: one per leaf, under its
  path-like key.
\<close>

fun leaves :: "string \<Rightarrow> entries \<Rightarrow> entries" where
  "leaves prefix [] = []"
| "leaves prefix ((key, val) # es) =
     (case val of
        JObj p m \<Rightarrow> leaves (new_key prefix key) m
      | _ \<Rightarrow> [(new_key prefix key, val)]) @ leaves prefix es"

text \<open>One assignment \<^verbatim>\<open>result[k] = v\<close>.\<close>

abbreviation bind_entry :: "obj \<Rightarrow> string \<times> jv \<Rightarrow> obj" where
  "bind_entry r e \<equiv> obj_set r (fst e) (snd e)"

fun is_mapping :: "jv \<Rightarrow> bool" where
  "is_mapping (JObj p es) = True"
| "is_mapping v = False"

fun is_container :: "jv \<Rightarrow> bool" where
  "is_container (JObj p es) = True"
| "is_container (JArr xs) = True"
| "is_container v = False"

text \<open>\<^verbatim>\<open>Array.isArray\<close>.\<close>

fun is_array :: "jv \<Rightarrow> bool" where
  "is_array (JArr xs) = True"
| "is_array v = False"

section \<open>Selecting by a dotted path\<close>

text \<open>
  \<^verbatim>\<open>
  jsonPath.split(".").reduce((acc, key) => (acc && acc[key] ? acc[key] : null), root)
  \<close>
\<close>

fun truthy :: "jv \<Rightarrow> bool" where
  "truthy JNull = False"
| "truthy (JBool b) = b"
| "truthy (JNum n) = (n \<noteq> 0)"
| "truthy (JStr s) = (s \<noteq> [])"
| "truthy (JArr xs) = True"
| "truthy (JObj p es) = True"

fun split_dot :: "string \<Rightarrow> string list" where
  "split_dot [] = [[]]"
| "split_dot (c # cs) =
     (if c = CHR ''.'' then [] # split_dot cs
      else (case split_dot cs of [] \<Rightarrow> [[c]] | seg # segs \<Rightarrow> (c # seg) # segs))"

text \<open>
  The read \<^verbatim>\<open>acc[key]\<close> looks for an own property first and then goes up the prototype
  chain. What the chain ends in belongs to the engine, not to the program: the members of
  \<^verbatim>\<open>Object.prototype\<close>, \<^verbatim>\<open>Array.prototype\<close>, \<^verbatim>\<open>String.prototype\<close>,
  \<^verbatim>\<open>Number.prototype\<close> and \<^verbatim>\<open>Boolean.prototype\<close>, most of them functions. A read can
  therefore return a value that no parser produces; \<open>Native\<close> stands for such an object or
  function of the engine. Some members are accessors, and an accessor can throw (the
  \<^verbatim>\<open>caller\<close> of a built-in function does), so a read of an inherited member returns
  the message of the exception (\<open>Inl\<close>) or what it found (\<open>Inr\<close>, with \<open>None\<close> for
  \<^verbatim>\<open>undefined\<close>). The \<open>engine\<close> says what a built-in prototype answers for a key
  (\<open>builtin_get\<close>, given the value the read started from), what a native object answers
  (\<open>native_get\<close>), and whether a native object is an array and with which elements
  (\<open>native_items\<close>; the one array among the built-in objects, \<^verbatim>\<open>Array.prototype\<close>,
  has none). Nothing is assumed about these answers.
\<close>

datatype klass = ObjectK | ArrayK | StringK | NumberK | BooleanK

datatype sel = Val jv | Native nat

record engine =
  builtin_get :: "klass \<Rightarrow> jv \<Rightarrow> string \<Rightarrow> string + sel option"
  native_get :: "nat \<Rightarrow> string \<Rightarrow> string + sel option"
  native_items :: "nat \<Rightarrow> jv list option"

text \<open>
  The own properties: \<open>None\<close> is \<^verbatim>\<open>undefined\<close>. They are data properties, so reading
  one never throws.
\<close>

fun own_prop :: "jv \<Rightarrow> string \<Rightarrow> jv option" where
  "own_prop (JObj p es) key = map_of es key"
| "own_prop (JArr xs) key =
     (if key = ''length'' then Some (JNum (int (length xs)))
      else (case array_index key of
              None \<Rightarrow> None
            | Some i \<Rightarrow> if i < length xs then Some (xs ! i) else None))"
| "own_prop (JStr s) key =
     (if key = ''length'' then Some (JNum (int (length s)))
      else (case array_index key of
              None \<Rightarrow> None
            | Some i \<Rightarrow> if i < length s then Some (JStr [s ! i]) else None))"
| "own_prop v key = None"

text \<open>
  The rest of the prototype chain of \<open>holder\<close>, for a read that started from \<open>recv\<close>.
\<close>

fun inherited :: "engine \<Rightarrow> jv \<Rightarrow> jv \<Rightarrow> string \<Rightarrow> string + sel option" where
  "inherited e recv (JObj ObjectProto es) key = builtin_get e ObjectK recv key"
| "inherited e recv (JObj NullProto es) key = Inr None"
| "inherited e recv (JObj (ValueProto v) es) key =
     (case own_prop v key of
        Some x \<Rightarrow> Inr (Some (Val x))
      | None \<Rightarrow> inherited e recv v key)"
| "inherited e recv (JArr xs) key = builtin_get e ArrayK recv key"
| "inherited e recv (JStr s) key = builtin_get e StringK recv key"
| "inherited e recv (JNum n) key = builtin_get e NumberK recv key"
| "inherited e recv (JBool b) key = builtin_get e BooleanK recv key"
| "inherited e recv JNull key = Inr None"

definition get_prop :: "engine \<Rightarrow> jv \<Rightarrow> string \<Rightarrow> string + sel option" where
  "get_prop e acc key =
     (case own_prop acc key of
        Some x \<Rightarrow> Inr (Some (Val x))
      | None \<Rightarrow> inherited e acc acc key)"

fun truthy_sel :: "sel \<Rightarrow> bool" where
  "truthy_sel (Val v) = truthy v"
| "truthy_sel (Native n) = True"

text \<open>
  \<^verbatim>\<open>x ? x : null\<close> for what a read returned: a value that is missing or falsy gives null.
  A read that threw gives no value.
\<close>

definition or_null :: "string + sel option \<Rightarrow> string + sel" where
  "or_null r =
     (case r of
        Inl msg \<Rightarrow> Inl msg
      | Inr None \<Rightarrow> Inr (Val JNull)
      | Inr (Some x) \<Rightarrow> Inr (if truthy_sel x then x else Val JNull))"

text \<open>
  One call of the reducer, \<^verbatim>\<open>acc && acc[key] ? acc[key] : null\<close>. The read happens only
  from a truthy \<open>acc\<close>, so null is never read from.
\<close>

definition sel_step :: "engine \<Rightarrow> sel \<Rightarrow> string \<Rightarrow> string + sel" where
  "sel_step e acc key =
     (if truthy_sel acc
      then or_null (case acc of Val v \<Rightarrow> get_prop e v key | Native n \<Rightarrow> native_get e n key)
      else Inr (Val JNull))"

text \<open>
  \<^verbatim>\<open>reduce\<close> calls the reducer for each segment in turn, with the value the call before
  returned; an exception in a call ends it.
\<close>

definition reduce_step :: "engine \<Rightarrow> string + sel \<Rightarrow> string \<Rightarrow> string + sel" where
  "reduce_step e acc key = (case acc of Inl msg \<Rightarrow> Inl msg | Inr a \<Rightarrow> sel_step e a key)"

definition select_reduce :: "engine \<Rightarrow> jv \<Rightarrow> string \<Rightarrow> string + sel" where
  "select_reduce e root path = foldl (reduce_step e) (Inr (Val root)) (split_dot path)"

text \<open>\<^verbatim>\<open>Array.isArray\<close> on the selected value, with the elements of the array.\<close>

fun array_items :: "engine \<Rightarrow> sel \<Rightarrow> jv list option" where
  "array_items e (Val (JArr xs)) = Some xs"
| "array_items e (Val v) = None"
| "array_items e (Native n) = native_items e n"

text \<open>
  The selector as the specification words it: a step descends only from a mapping, into
  its entry at the key.
\<close>

definition spec_step :: "jv \<Rightarrow> string \<Rightarrow> jv" where
  "spec_step acc key =
     (case acc of
        JObj p es \<Rightarrow> (case map_of es key of
                        None \<Rightarrow> JNull
                      | Some v \<Rightarrow> if truthy v then v else JNull)
      | _ \<Rightarrow> JNull)"

definition select_spec :: "jv \<Rightarrow> string \<Rightarrow> jv" where
  "select_spec root path = foldl spec_step root (split_dot path)"

section \<open>Shapes of values\<close>

text \<open>
  A key \<open>$\<close> anywhere in a value: in an object, in an element of an array, in the value
  of an entry, or in the object that serves as a prototype.
\<close>

fun has_marker :: "jv \<Rightarrow> bool" where
  "has_marker (JArr xs) = (\<exists>x\<in>set xs. has_marker x)"
| "has_marker (JObj p es) =
     ((case p of ValueProto v \<Rightarrow> has_marker v | _ \<Rightarrow> False)
      \<or> (\<exists>e\<in>set es. fst e = ''$'' \<or> has_marker (snd e)))"
| "has_marker v = False"

fun has_single :: "jv \<Rightarrow> bool" where
  "has_single (JArr xs) = (length xs = 1 \<or> (\<exists>x\<in>set xs. has_single x))"
| "has_single (JObj p es) = (\<exists>e\<in>set es. has_single (snd e))"
| "has_single v = False"

text \<open>
  The keys of an object are distinct and come in enumeration order; \<open>own_order\<close> asks
  this of every object inside a value. Every value a parser returns has the property.
\<close>

definition own_keys :: "string list \<Rightarrow> bool" where
  "own_keys ks = (distinct ks \<and> sorted_wrt (\<lambda>a b. \<not> placed_before b a) ks)"

fun own_order :: "jv \<Rightarrow> bool" where
  "own_order (JArr xs) = (\<forall>x\<in>set xs. own_order x)"
| "own_order (JObj p es) = (own_keys (map fst es) \<and> (\<forall>e\<in>set es. own_order (snd e)))"
| "own_order v = True"

text \<open>
  A value in which every object has the prototype \<^verbatim>\<open>Object.prototype\<close> and no object
  has a key \<^verbatim>\<open>__proto__\<close>.
\<close>

fun plain :: "jv \<Rightarrow> bool" where
  "plain (JArr xs) = (\<forall>x\<in>set xs. plain x)"
| "plain (JObj p es) =
     (p = ObjectProto \<and> (\<forall>e\<in>set es. fst e \<noteq> ''__proto__'' \<and> plain (snd e)))"
| "plain v = True"

text \<open>Collapsing every single-element sequence, and nothing else.\<close>

fun collapse :: "jv \<Rightarrow> jv" where
  "collapse (JArr xs) = (case xs of [x] \<Rightarrow> collapse x | _ \<Rightarrow> JArr (map collapse xs))"
| "collapse (JObj p es) = JObj p (map (\<lambda>e. (fst e, collapse (snd e))) es)"
| "collapse v = v"

section \<open>The request handlers\<close>

text \<open>
  The handlers talk to the file system, to the path library, to the XML and JSON parsers and
  to the CSV serializer. These are collaborators of the program, not part of it: a \<open>host\<close>
  supplies them, together with the built-in prototypes of the engine the program runs on.
  Every call that can throw returns its error message instead; a write and a directory
  creation also return the file system they leave behind. Logging with
  \<^verbatim>\<open>console.error\<close> is left out.
\<close>

record 'fs host =
  dirname :: string
  path_join :: "string list \<Rightarrow> string"
  path_basename :: "string \<Rightarrow> string \<Rightarrow> string"
  path_extname :: "string \<Rightarrow> string"
  existsSync :: "'fs \<Rightarrow> string \<Rightarrow> bool"
  mkdirSync :: "'fs \<Rightarrow> string \<Rightarrow> string option \<times> 'fs"
  readFileSync :: "'fs \<Rightarrow> string \<Rightarrow> string + string"
  writeFileSync :: "'fs \<Rightarrow> string \<Rightarrow> string \<Rightarrow> string option \<times> 'fs"
  parseStringPromise :: "string \<Rightarrow> string + jv"
  JSON_parse :: "string \<Rightarrow> string + jv"
  JSON_stringify :: "jv \<Rightarrow> string"
  Parser_parse :: "jv list \<Rightarrow> string + string"
  builtins :: engine

text \<open>
  The state a handler runs in: the file system, and the list of calls to
  \<^verbatim>\<open>writeFileSync\<close> made so far, each with its path and text.
\<close>

record 'fs world =
  disk :: 'fs
  writes :: "(string \<times> string) list"

text \<open>The fields of \<^verbatim>\<open>req.body\<close>, each a string; \<open>None\<close> is a field the request leaves out.\<close>

record body =
  filename :: "string option"
  jsonPath :: "string option"

text \<open>
  What the handler answers: \<^verbatim>\<open>res.badRequest\<close> (400), \<^verbatim>\<open>res.notFound\<close> (404),
  \<^verbatim>\<open>res.serverError\<close> (500) or \<^verbatim>\<open>res.json\<close>, each with its body; \<open>Uncaught\<close> is an
  exception thrown outside the \<^verbatim>\<open>try\<close> block.
\<close>

datatype response =
    BadRequest jv
  | NotFound jv
  | ServerError jv
  | Json jv
  | Uncaught string

fun is_json :: "response \<Rightarrow> bool" where
  "is_json (Json b) = True"
| "is_json r = False"

definition error_body :: "string \<Rightarrow> jv" where
  "error_body msg = JPlain [(''error'', JStr msg)]"

definition failure_body :: "string \<Rightarrow> string \<Rightarrow> jv" where
  "failure_body msg details = JPlain [(''error'', JStr msg), (''details'', JStr details)]"

definition ensureDirectory :: "'fs host \<Rightarrow> string \<Rightarrow> 'fs world \<Rightarrow> string option \<times> 'fs world" where
  "ensureDirectory h dirPath w =
     (if \<not> existsSync h (disk w) dirPath
      then (case mkdirSync h (disk w) dirPath of (err, d) \<Rightarrow> (err, w\<lparr>disk := d\<rparr>))
      else (None, w))"

definition write_file ::
  "'fs host \<Rightarrow> string \<Rightarrow> string \<Rightarrow> 'fs world \<Rightarrow> string option \<times> 'fs world" where
  "write_file h p content w =
     (case writeFileSync h (disk w) p content of
        (err, d) \<Rightarrow> (err, \<lparr>disk = d, writes = writes w @ [(p, content)]\<rparr>))"

text \<open>
  \<^verbatim>\<open>dataToConvert.map((item) => flattenJson(item))\<close>: each item is flattened under the
  empty prefix into a new empty object; the first item that throws ends the map.
\<close>

fun flatten_all :: "jv list \<Rightarrow> string + jv list" where
  "flatten_all [] = Inr []"
| "flatten_all (item # items) =
     (case flattenJson item [] empty_obj of
        Inl msg \<Rightarrow> Inl msg
      | Inr row \<Rightarrow> (case flatten_all items of
                     Inl msg \<Rightarrow> Inl msg
                   | Inr rows \<Rightarrow> Inr (obj_value row # rows)))"

text \<open>Template text for a path that may be \<^verbatim>\<open>undefined\<close>.\<close>

definition render_path :: "string option \<Rightarrow> string" where
  "render_path p = (case p of None \<Rightarrow> ''undefined'' | Some s \<Rightarrow> s)"

definition no_path_msg :: "string option \<Rightarrow> string" where
  "no_path_msg p =
     ''The specified JSON path '' @ [CHR 0x27] @ render_path p @ [CHR 0x27] @ '' does not exist.''"

definition not_array_msg :: string where
  "not_array_msg = ''The selected JSON data is not an array and cannot be converted to CSV.''"

subsection \<open>xmlToJson\<close>

text \<open>
  For each handler, the function named after it is the code up to the \<^verbatim>\<open>try\<close> block, and
  the function with the suffix \<open>_try\<close> is the \<^verbatim>\<open>try\<close> block with its \<^verbatim>\<open>catch\<close>: a
  step that throws ends the block with the 500 response that carries the message.
\<close>

definition xmlToJson_try ::
  "'fs host \<Rightarrow> string \<Rightarrow> string \<Rightarrow> 'fs world \<Rightarrow> response \<times> 'fs world" where
  "xmlToJson_try h xmlFilePath outputJsonPath w =
     (case readFileSync h (disk w) xmlFilePath of
        Inl msg \<Rightarrow> (ServerError (failure_body ''Failed to convert XML to JSON.'' msg), w)
      | Inr xmlData \<Rightarrow>
          (case parseStringPromise h xmlData of
             Inl msg \<Rightarrow> (ServerError (failure_body ''Failed to convert XML to JSON.'' msg), w)
           | Inr rawJson \<Rightarrow>
               (let cleanedJson = cleanJson rawJson in
                case write_file h outputJsonPath (JSON_stringify h cleanedJson) w of
                  (Some msg, w') \<Rightarrow>
                    (ServerError (failure_body ''Failed to convert XML to JSON.'' msg), w')
                | (None, w') \<Rightarrow>
                    (Json (JPlain [(''message'', JStr ''XML successfully converted to JSON and saved.''),
                                   (''jsonFilePath'', JStr outputJsonPath),
                                   (''data'', cleanedJson)]), w'))))"

definition xmlToJson :: "'fs host \<Rightarrow> body \<Rightarrow> 'fs world \<Rightarrow> response \<times> 'fs world" where
  "xmlToJson h req w =
     (case filename req of
        None \<Rightarrow> (BadRequest (error_body ''Filename is required.''), w)
      | Some fname \<Rightarrow>
          if fname = [] then (BadRequest (error_body ''Filename is required.''), w)
          else
            (let xmlDir = path_join h [dirname h, ''../../templates/xml''];
                 jsonDir = path_join h [dirname h, ''../../templates/json''];
                 xmlFilePath = path_join h [xmlDir, fname];
                 outputJsonPath =
                   path_join h [jsonDir, path_basename h fname (path_extname h fname) @ ''.json'']
             in case ensureDirectory h xmlDir w of
                  (Some msg, w1) \<Rightarrow> (Uncaught msg, w1)
                | (None, w1) \<Rightarrow>
                    (case ensureDirectory h jsonDir w1 of
                       (Some msg, w2) \<Rightarrow> (Uncaught msg, w2)
                     | (None, w2) \<Rightarrow>
                         if \<not> existsSync h (disk w2) xmlFilePath
                         then (NotFound (error_body ''File not found in uploads directory.''), w2)
                         else xmlToJson_try h xmlFilePath outputJsonPath w2)))"

subsection \<open>jsonToCsv\<close>

text \<open>
  \<open>dataToConvert\<close> is what the reducer returns, so it can be an object of the engine;
  \<^verbatim>\<open>!dataToConvert\<close> is \<open>\<not> truthy_sel\<close> and \<^verbatim>\<open>Array.isArray\<close> is \<open>array_items\<close>.
  An exception in the reducer is caught like any other in the \<^verbatim>\<open>try\<close> block.
\<close>

definition jsonToCsv_try ::
  "'fs host \<Rightarrow> string option \<Rightarrow> string \<Rightarrow> string \<Rightarrow> 'fs world \<Rightarrow> response \<times> 'fs world" where
  "jsonToCsv_try h the_path jsonFilePath outputCsvPath w =
     (case readFileSync h (disk w) jsonFilePath of
        Inl msg \<Rightarrow> (ServerError (failure_body ''Failed to convert JSON to CSV.'' msg), w)
      | Inr content \<Rightarrow>
          (case JSON_parse h content of
             Inl msg \<Rightarrow> (ServerError (failure_body ''Failed to convert JSON to CSV.'' msg), w)
           | Inr jsonData \<Rightarrow>
               (case (case the_path of
                        None \<Rightarrow> Inr (Val jsonData)
                      | Some p \<Rightarrow>
                          if p \<noteq> [] then select_reduce (builtins h) jsonData p
                          else Inr (Val jsonData)) of
                  Inl msg \<Rightarrow> (ServerError (failure_body ''Failed to convert JSON to CSV.'' msg), w)
                | Inr dataToConvert \<Rightarrow>
                   if \<not> truthy_sel dataToConvert
                   then (BadRequest (error_body (no_path_msg the_path)), w)
                   else
                     (case array_items (builtins h) dataToConvert of
                        None \<Rightarrow> (BadRequest (error_body not_array_msg), w)
                      | Some items \<Rightarrow>
                          (case flatten_all items of
                             Inl msg \<Rightarrow>
                               (ServerError (failure_body ''Failed to convert JSON to CSV.'' msg), w)
                           | Inr flattenedData \<Rightarrow>
                               (case Parser_parse h flattenedData of
                                  Inl msg \<Rightarrow>
                                    (ServerError
                                       (failure_body ''Failed to convert JSON to CSV.'' msg), w)
                                | Inr csv \<Rightarrow>
                                    (case write_file h outputCsvPath csv w of
                                       (Some msg, w') \<Rightarrow>
                                         (ServerError
                                            (failure_body ''Failed to convert JSON to CSV.'' msg), w')
                                     | (None, w') \<Rightarrow>
                                         (Json (JPlain
                                            [(''message'',
                                              JStr ''JSON successfully converted to CSV and saved.''),
                                             (''csvFilePath'', JStr outputCsvPath)]), w'))))))))"

definition jsonToCsv :: "'fs host \<Rightarrow> body \<Rightarrow> 'fs world \<Rightarrow> response \<times> 'fs world" where
  "jsonToCsv h req w =
     (case filename req of
        None \<Rightarrow> (BadRequest (error_body ''Filename is required.''), w)
      | Some fname \<Rightarrow>
          if fname = [] then (BadRequest (error_body ''Filename is required.''), w)
          else
            (let jsonFilePath = path_join h [dirname h, ''../../templates/json'', fname];
                 outputCsvPath =
                   path_join h [dirname h, ''../../templates/csv'',
                                path_basename h fname (path_extname h fname) @ ''.csv'']
             in if \<not> existsSync h (disk w) jsonFilePath
                then (NotFound (error_body ''JSON file not found in exports directory.''), w)
                else jsonToCsv_try h (jsonPath req) jsonFilePath outputCsvPath w))"

subsection \<open>convert (XML to CSV)\<close>

text \<open>
  The object \<open>response\<close> is made before the selection and changed after the write:
  \<^verbatim>\<open>response.message = ...; response.csvFilePath = outputCsvPath\<close>.
\<close>

definition convert_try ::
  "'fs host \<Rightarrow> string \<Rightarrow> string \<Rightarrow> string \<Rightarrow> 'fs world \<Rightarrow> response \<times> 'fs world" where
  "convert_try h the_path xmlFilePath outputCsvPath w =
     (case readFileSync h (disk w) xmlFilePath of
        Inl msg \<Rightarrow> (ServerError (failure_body ''Failed to convert XML to JSON/CSV.'' msg), w)
      | Inr xmlData \<Rightarrow>
          (case parseStringPromise h xmlData of
             Inl msg \<Rightarrow> (ServerError (failure_body ''Failed to convert XML to JSON/CSV.'' msg), w)
           | Inr rawJson \<Rightarrow>
               (let cleanedJson = cleanJson rawJson;
                    response = (ObjectProto,
                                [(''message'', JStr ''XML successfully converted to JSON.''),
                                 (''data'', cleanedJson)])
                in case select_reduce (builtins h) cleanedJson the_path of
                  Inl msg \<Rightarrow>
                    (ServerError (failure_body ''Failed to convert XML to JSON/CSV.'' msg), w)
                | Inr dataToConvert \<Rightarrow>
                   if \<not> truthy_sel dataToConvert
                   then (BadRequest (error_body (no_path_msg (Some the_path))), w)
                   else
                     (case array_items (builtins h) dataToConvert of
                        None \<Rightarrow> (BadRequest (error_body not_array_msg), w)
                      | Some items \<Rightarrow>
                          (case flatten_all items of
                             Inl msg \<Rightarrow>
                               (ServerError
                                  (failure_body ''Failed to convert XML to JSON/CSV.'' msg), w)
                           | Inr flattenedData \<Rightarrow>
                               (case Parser_parse h flattenedData of
                                  Inl msg \<Rightarrow>
                                    (ServerError
                                       (failure_body ''Failed to convert XML to JSON/CSV.'' msg), w)
                                | Inr csv \<Rightarrow>
                                    (case write_file h outputCsvPath csv w of
                                       (Some msg, w') \<Rightarrow>
                                         (ServerError
                                            (failure_body ''Failed to convert XML to JSON/CSV.'' msg),
                                          w')
                                     | (None, w') \<Rightarrow>
                                         (Json (obj_value
                                            (obj_set
                                               (obj_set response ''message''
                                                  (JStr ''XML successfully converted to JSON and CSV.''))
                                               ''csvFilePath'' (JStr outputCsvPath))), w'))))))))"

definition convert :: "'fs host \<Rightarrow> body \<Rightarrow> 'fs world \<Rightarrow> response \<times> 'fs world" where
  "convert h req w =
     (let the_path = (case jsonPath req of None \<Rightarrow> ''clearing.operation'' | Some p \<Rightarrow> p)
      in case filename req of
           None \<Rightarrow> (BadRequest (error_body ''Filename is required.''), w)
         | Some fname \<Rightarrow>
             if fname = [] then (BadRequest (error_body ''Filename is required.''), w)
             else
               (let uploadsDir = path_join h [dirname h, ''../../uploads''];
                    exportsDir = path_join h [dirname h, ''../../exports''];
                    xmlFilePath = path_join h [uploadsDir, fname];
                    outputCsvPath =
                      path_join h [exportsDir,
                                   path_basename h fname (path_extname h fname) @ ''.csv'']
                in case ensureDirectory h uploadsDir w of
                     (Some msg, w1) \<Rightarrow> (Uncaught msg, w1)
                   | (None, w1) \<Rightarrow>
                       (case ensureDirectory h exportsDir w1 of
                          (Some msg, w2) \<Rightarrow> (Uncaught msg, w2)
                        | (None, w2) \<Rightarrow>
                            if \<not> existsSync h (disk w2) xmlFilePath
                            then (NotFound (error_body ''File not found in XML directory.''), w2)
                            else convert_try h the_path xmlFilePath outputCsvPath w2)))"

subsection \<open>The paths the handlers use\<close>

abbreviation xml_dir :: "'fs host \<Rightarrow> string" where
  "xml_dir h \<equiv> path_join h [dirname h, ''../../templates/xml'']"

abbreviation json_dir :: "'fs host \<Rightarrow> string" where
  "json_dir h \<equiv> path_join h [dirname h, ''../../templates/json'']"

abbreviation xml_in :: "'fs host \<Rightarrow> string \<Rightarrow> string" where
  "xml_in h fname \<equiv> path_join h [xml_dir h, fname]"

abbreviation json_out :: "'fs host \<Rightarrow> string \<Rightarrow> string" where
  "json_out h fname \<equiv>
     path_join h [json_dir h, path_basename h fname (path_extname h fname) @ ''.json'']"

abbreviation json_in :: "'fs host \<Rightarrow> string \<Rightarrow> string" where
  "json_in h fname \<equiv> path_join h [dirname h, ''../../templates/json'', fname]"

abbreviation csv_out :: "'fs host \<Rightarrow> string \<Rightarrow> string" where
  "csv_out h fname \<equiv>
     path_join h [dirname h, ''../../templates/csv'',
                  path_basename h fname (path_extname h fname) @ ''.csv'']"

abbreviation uploads_dir :: "'fs host \<Rightarrow> string" where
  "uploads_dir h \<equiv> path_join h [dirname h, ''../../uploads'']"

abbreviation exports_dir :: "'fs host \<Rightarrow> string" where
  "exports_dir h \<equiv> path_join h [dirname h, ''../../exports'']"

abbreviation upload_in :: "'fs host \<Rightarrow> string \<Rightarrow> string" where
  "upload_in h fname \<equiv> path_join h [uploads_dir h, fname]"

abbreviation export_out :: "'fs host \<Rightarrow> string \<Rightarrow> string" where
  "export_out h fname \<equiv>
     path_join h [exports_dir h, path_basename h fname (path_extname h fname) @ ''.csv'']"

text \<open>The default path expression of \<open>convert\<close>.\<close>

abbreviation path_or_default :: "body \<Rightarrow> string" where
  "path_or_default req \<equiv>
     (case jsonPath req of None \<Rightarrow> ''clearing.operation'' | Some p \<Rightarrow> p)"


subsection \<open>A host to run the handlers on\<close>

text \<open>
  A few members of the built-in prototypes, for concrete runs. The objects of the engine
  are numbered: 0 to 4 are the functions \<^verbatim>\<open>Object\<close>, \<^verbatim>\<open>Array\<close>, \<^verbatim>\<open>String\<close>,
  \<^verbatim>\<open>Number\<close> and \<^verbatim>\<open>Boolean\<close>, 5 is a method \<^verbatim>\<open>toString\<close>, and 6 to 10 are the
  prototypes of the five classes. \<^verbatim>\<open>Array.prototype\<close> is itself an array, with no
  elements. The getter \<^verbatim>\<open>__proto__\<close> answers with the prototype of the value the read
  started from, and the getter \<^verbatim>\<open>caller\<close> of a function throws.
\<close>

definition demo_engine :: engine where
  "demo_engine =
     \<lparr>builtin_get = (\<lambda>k recv key.
        Inr (if key = ''constructor''
             then Some (Native (case k of ObjectK \<Rightarrow> 0 | ArrayK \<Rightarrow> 1 | StringK \<Rightarrow> 2
                                  | NumberK \<Rightarrow> 3 | BooleanK \<Rightarrow> 4))
             else if key = ''toString'' then Some (Native 5)
             else if key = ''__proto__''
             then (case recv of
                     JNull \<Rightarrow> None
                   | JBool b \<Rightarrow> Some (Native 10)
                   | JNum n \<Rightarrow> Some (Native 9)
                   | JStr s \<Rightarrow> Some (Native 8)
                   | JArr xs \<Rightarrow> Some (Native 7)
                   | JObj p es \<Rightarrow> (case p of
                                     ObjectProto \<Rightarrow> Some (Native 6)
                                   | NullProto \<Rightarrow> None
                                   | ValueProto v \<Rightarrow> Some (Val v)))
             else None)),
      native_get = (\<lambda>n key.
        if key = ''caller'' \<and> n \<le> 5 then Inl ''caller may not be accessed on this function''
        else if key = ''prototype'' \<and> n = 0 then Inr (Some (Native 6))
        else if key = ''prototype'' \<and> n = 1 then Inr (Some (Native 7))
        else Inr None),
      native_items = (\<lambda>n. if n = 7 then Some [] else None)\<rparr>"

text \<open>
  A small host: the file system is a list of files with their text, paths are joined with
  a slash, creating a directory changes nothing, and the parsers know a few documents.
  \<open>demo_host ok\<close> writes files when \<open>ok\<close> holds and fails every write otherwise.
\<close>

fun join_slash :: "string list \<Rightarrow> string" where
  "join_slash [] = []"
| "join_slash [p] = p"
| "join_slash (p # q # ps) = p @ ''/'' @ join_slash (q # ps)"

definition demo_xml :: "string \<Rightarrow> string + jv" where
  "demo_xml s =
     (if s = ''<clearing><operation><id>1</id></operation><operation><id>2</id></operation></clearing>''
      then Inr (JPlain [(''clearing'', JPlain [(''operation'',
                  JArr [JPlain [(''id'', JArr [JStr ''1''])], JPlain [(''id'', JArr [JStr ''2''])]])])])
      else if s = ''<root><item>1</item></root>''
      then Inr (JPlain [(''root'', JPlain [(''item'', JArr [JStr ''1''])])])
      else Inl ''Non-whitespace before first tag.'')"

definition demo_json :: "string \<Rightarrow> string + jv" where
  "demo_json s =
     (if s = ''{\"rows\":[{\"a\":1,\"b\":{\"c\":2}}]}''
      then Inr (JPlain [(''rows'', JArr [JPlain [(''a'', JNum 1), (''b'', JPlain [(''c'', JNum 2)])]])])
      else if s = ''[{\"a\":1}]'' then Inr (JArr [JPlain [(''a'', JNum 1)]])
      else if s = ''null'' then Inr JNull
      else if s = ''{\"a\":1}'' then Inr (JPlain [(''a'', JNum 1)])
      else Inl ''Unexpected token'')"

definition demo_host :: "bool \<Rightarrow> (string \<times> string) list host" where
  "demo_host ok =
     \<lparr>dirname = ''/app/api/controllers'',
      path_join = join_slash,
      path_basename = (\<lambda>p ext. take (length p - length ext) p),
      path_extname = (\<lambda>p. dropWhile (\<lambda>c. c \<noteq> CHR ''.'') p),
      existsSync = (\<lambda>fs p. p \<in> set (map fst fs)),
      mkdirSync = (\<lambda>fs p. (None, fs)),
      readFileSync = (\<lambda>fs p. case map_of fs p of None \<Rightarrow> Inl ''ENOENT'' | Some t \<Rightarrow> Inr t),
      writeFileSync = (\<lambda>fs p t. if ok then (None, (p, t) # fs) else (Some ''EACCES'', fs)),
      parseStringPromise = demo_xml,
      JSON_parse = demo_json,
      JSON_stringify = (\<lambda>v. ''{}''),
      Parser_parse = (\<lambda>rows. if rows = [] then Inl ''Data should not be empty'' else Inr ''csv''),
      builtins = demo_engine\<rparr>"

definition demo_world :: "(string \<times> string) list world" where
  "demo_world =
     \<lparr>disk =
        [(''/app/api/controllers/../../templates/json/rows.json'',
          ''{\"rows\":[{\"a\":1,\"b\":{\"c\":2}}]}''),
         (''/app/api/controllers/../../templates/json/null.json'', ''null''),
         (''/app/api/controllers/../../templates/json/list.json'', ''[{\"a\":1}]''),
         (''/app/api/controllers/../../templates/json/one.json'', ''{\"a\":1}''),
         (''/app/api/controllers/../../uploads/ops.xml'',
          ''<clearing><operation><id>1</id></operation><operation><id>2</id></operation></clearing>''),
         (''/app/api/controllers/../../uploads/item.xml'', ''<root><item>1</item></root>''),
         (''/app/api/controllers/../../templates/xml/item.xml'', ''<root><item>1</item></root>'')],
      writes = []\<rparr>"

section \<open>Object assignment\<close>

lemma set_insert_own: "set (insert_own k v es) = insert (k, v) (set es)"
  by (induction es) (auto split: if_splits)

lemma set_update:
  "k \<in> set (map fst es) \<Longrightarrow>
   set (map (\<lambda>e. if fst e = k then (k, v) else e) es) =
     insert (k, v) {e \<in> set es. fst e \<noteq> k}"
  by (induction es) auto

text \<open>An assignment adds no entry but the one assigned, and no prototype but the value.\<close>

lemma obj_set_entries: "set (snd (obj_set ob k v)) \<subseteq> insert (k, v) (set (snd ob))"
proof (cases ob)
  case (Pair p es)
  show ?thesis
  proof (cases "k \<in> set (map fst es)")
    case True
    then have "set (snd (obj_set ob k v)) = insert (k, v) {e \<in> set es. fst e \<noteq> k}"
      unfolding Pair obj_set_def by (simp only: prod.case if_True snd_conv set_update)
    then show ?thesis using Pair by auto
  next
    case False
    then show ?thesis using Pair
      by (auto simp: obj_set_def set_insert_own split: jv.splits)
  qed
qed

lemma obj_set_proto:
  "fst (obj_set ob k v) = fst ob \<or> fst (obj_set ob k v) = NullProto
   \<or> fst (obj_set ob k v) = ValueProto v"
  by (cases ob) (auto simp: obj_set_def split: jv.splits)

text \<open>The key \<^verbatim>\<open>__proto__\<close> makes no entry in an object that inherits the setter.\<close>

lemma obj_set_proto_key:
  "''__proto__'' \<notin> set (map fst es) \<Longrightarrow> setter_inherited p \<Longrightarrow>
   snd (obj_set (p, es) ''__proto__'' v) = es"
  by (auto simp: obj_set_def split: jv.splits)

text \<open>Every other new key is created, and a key the object owns takes the value.\<close>

lemma map_of_insert_own:
  "k \<notin> set (map fst es) \<Longrightarrow> map_of (insert_own k v es) = (map_of es)(k \<mapsto> v)"
  by (induction es) (auto simp: fun_upd_twist)

lemma map_of_update:
  "map_of (map (\<lambda>e. if fst e = k then (k, v) else e) es) k' =
     (if k' = k then map_option (\<lambda>u. v) (map_of es k) else map_of es k')"
  by (induction es) auto

lemma map_of_obj_set:
  assumes "k \<noteq> ''__proto__'' \<or> k \<in> set (map fst es) \<or> \<not> setter_inherited p"
  shows "obj_set (p, es) k v = (p, snd (obj_set (p, es) k v))
    \<and> map_of (snd (obj_set (p, es) k v)) = (map_of es)(k \<mapsto> v)"
proof (cases "k \<in> set (map fst es)")
  case True
  then obtain u where "map_of es k = Some u"
    by (cases "map_of es k") (auto simp: map_of_eq_None_iff)
  then have "map_of (map (\<lambda>e. if fst e = k then (k, v) else e) es) = (map_of es)(k \<mapsto> v)"
    by (intro ext) (simp add: map_of_update)
  with True show ?thesis by (simp only: obj_set_def prod.case if_True snd_conv fst_conv)
next
  case False
  with assms show ?thesis by (auto simp: obj_set_def map_of_insert_own)
qed

lemma insert_own_append:
  "\<forall>k'\<in>set (map fst es). \<not> placed_before k k' \<Longrightarrow> insert_own k v es = es @ [(k, v)]"
  by (induction es) auto

lemma obj_set_append:
  "k \<noteq> ''__proto__'' \<Longrightarrow> own_keys (map fst es @ [k]) \<Longrightarrow>
   obj_set (p, es) k v = (p, es @ [(k, v)])"
  by (auto simp: own_keys_def obj_set_def sorted_wrt_append intro!: insert_own_append)

lemma own_keys_Nil: "own_keys []"
  by (simp add: own_keys_def)

lemma own_keys_drop: "own_keys (as @ k # bs) \<Longrightarrow> own_keys (as @ bs)"
  by (auto simp: own_keys_def sorted_wrt_append)

lemma map_fst_update:
  "map fst (map (\<lambda>e. if fst e = k then (k, v) else e) es) = map fst es"
  by (induction es) auto

lemma placed_before_trans:
  "placed_before k k' \<Longrightarrow> \<not> placed_before k'' k' \<Longrightarrow> \<not> placed_before k'' k"
  by (auto simp: placed_before_def split: option.splits)

lemma placed_before_asym: "placed_before k k' \<Longrightarrow> \<not> placed_before k' k"
  by (auto simp: placed_before_def split: option.splits)

lemma own_keys_insert_own:
  "own_keys (map fst es) \<Longrightarrow> k \<notin> set (map fst es) \<Longrightarrow> own_keys (map fst (insert_own k v es))"
proof (induction es)
  case Nil
  then show ?case by (simp add: own_keys_def)
next
  case (Cons e es)
  obtain k' v' where e: "e = (k', v')" by (cases e)
  from Cons.prems have tl: "own_keys (map fst es)" and notin: "k \<notin> set (map fst es)"
    by (auto simp: own_keys_def)
  show ?case
  proof (cases "placed_before k k'")
    case True
    with Cons.prems e show ?thesis
      by (auto simp: own_keys_def dest: placed_before_asym placed_before_trans)
  next
    case False
    from Cons.IH [OF tl notin] have ih: "own_keys (map fst (insert_own k v es))" .
    have "set (map fst (insert_own k v es)) = insert k (set (map fst es))"
      by (simp add: set_insert_own)
    with Cons.prems e False ih show ?thesis
      by (auto simp: own_keys_def)
  qed
qed

text \<open>Whatever the key, an assignment leaves the keys distinct and in enumeration order.\<close>

lemma own_keys_obj_set:
  "own_keys (map fst (snd ob)) \<Longrightarrow> own_keys (map fst (snd (obj_set ob k v)))"
proof (cases ob)
  case (Pair p es)
  assume "own_keys (map fst (snd ob))"
  with Pair have k: "own_keys (map fst es)" by simp
  show ?thesis
  proof (cases "k \<in> set (map fst es)")
    case True
    then have "snd (obj_set ob k v) = map (\<lambda>e. if fst e = k then (k, v) else e) es"
      unfolding Pair obj_set_def by (simp only: prod.case if_True snd_conv)
    with k show ?thesis by (simp only: map_fst_update)
  next
    case False
    with k own_keys_insert_own [OF k False, of v] show ?thesis
      unfolding Pair by (auto simp: obj_set_def split: jv.splits)
  qed
qed

section \<open>Properties of cleanJson\<close>

lemma cleanJson_map_eq: "cleanJson_map xs = map cleanJson xs"
  by (induction xs) auto

lemma empty_obj_marker_free: "\<not> has_marker (obj_value empty_obj)"
  by (simp add: obj_value_def empty_obj_def)

lemma obj_set_marker_free:
  assumes "\<not> has_marker (obj_value ob)" and "k \<noteq> ''$''" and "\<not> has_marker v"
  shows "\<not> has_marker (obj_value (obj_set ob k v))"
proof -
  from assms(1) have p: "case fst ob of ValueProto u \<Rightarrow> \<not> has_marker u | _ \<Rightarrow> True"
    and es: "\<forall>e\<in>set (snd ob). fst e \<noteq> ''$'' \<and> \<not> has_marker (snd e)"
    by (auto simp: obj_value_def split: proto.splits)
  from obj_set_proto [of ob k v] p assms(3)
  have "case fst (obj_set ob k v) of ValueProto u \<Rightarrow> \<not> has_marker u | _ \<Rightarrow> True"
    by (auto split: proto.splits)
  moreover from obj_set_entries [of ob k v] es assms(2,3)
  have "\<forall>e\<in>set (snd (obj_set ob k v)). fst e \<noteq> ''$'' \<and> \<not> has_marker (snd e)"
    by auto
  ultimately show ?thesis by (auto simp: obj_value_def split: proto.splits)
qed

lemma cleanJson_marker_free:
  "\<not> has_marker (cleanJson v)"
  "\<forall>x\<in>set (cleanJson_map xs). \<not> has_marker x"
  "\<not> has_marker (obj_value cleaned) \<Longrightarrow> \<not> has_marker (obj_value (cleanJson_entries es cleaned))"
  by (induction v and xs and es cleaned rule: cleanJson_cleanJson_map_cleanJson_entries.induct)
     (auto simp: empty_obj_marker_free obj_set_marker_free split: list.splits)

text \<open>
  C4. The result of \<open>cleanJson\<close> has no mapping entry with the key \<open>$\<close> at any depth,
  inside sequences and nested mappings included, and also inside an object that an
  assignment to \<^verbatim>\<open>__proto__\<close> has made a prototype.
\<close>

theorem cleanJson_no_marker: "\<not> has_marker (cleanJson v)"
  by (rule cleanJson_marker_free(1))

text \<open>
  On an object whose keys are in order and none of which is \<^verbatim>\<open>__proto__\<close>, the loop
  appends the retained entries and leaves the prototype alone.
\<close>

lemma cleanJson_entries_eq:
  "own_keys (map fst cleaned @ map fst es) \<Longrightarrow> ''__proto__'' \<notin> set (map fst es) \<Longrightarrow>
   cleanJson_entries es (p, cleaned) =
     (p, cleaned @ map (\<lambda>e. (fst e, cleanJson (snd e))) (filter (\<lambda>e. fst e \<noteq> ''$'') es))"
proof (induction es arbitrary: cleaned)
  case Nil
  then show ?case by simp
next
  case (Cons e es)
  obtain k v where e: "e = (k, v)" by (cases e)
  from Cons.prems(2) e have np: "k \<noteq> ''__proto__''" and np': "''__proto__'' \<notin> set (map fst es)"
    by auto
  show ?case
  proof (cases "k = ''$''")
    case True
    from Cons.prems e have "own_keys (map fst cleaned @ map fst es)"
      by (auto dest: own_keys_drop)
    from Cons.IH [OF this np'] True e show ?thesis by simp
  next
    case False
    from Cons.prems e have a: "own_keys (map fst cleaned @ [k])"
      by (auto simp: own_keys_def sorted_wrt_append)
    have b: "obj_set (p, cleaned) k (cleanJson v) = (p, cleaned @ [(k, cleanJson v)])"
      by (rule obj_set_append [OF np a])
    from Cons.prems e have "own_keys (map fst (cleaned @ [(k, cleanJson v)]) @ map fst es)"
      by simp
    from Cons.IH [OF this np'] False e b show ?thesis by simp
  qed
qed

text \<open>
  The case analysis of \<open>cleanJson\<close>: a sequence of one element, a sequence of any other
  length, a mapping without the key \<^verbatim>\<open>__proto__\<close>, and the scalars.
\<close>

lemma cleanJson_case_analysis:
  "cleanJson (JArr [x]) = cleanJson x"
  "length xs \<noteq> 1 \<Longrightarrow> cleanJson (JArr xs) = JArr (map cleanJson xs)"
  "own_keys (map fst es) \<Longrightarrow> ''__proto__'' \<notin> set (map fst es) \<Longrightarrow>
   cleanJson (JObj p es) =
     JPlain (map (\<lambda>e. (fst e, cleanJson (snd e))) (filter (\<lambda>e. fst e \<noteq> ''$'') es))"
  "cleanJson JNull = JNull"
  "cleanJson (JBool b) = JBool b"
  "cleanJson (JNum n) = JNum n"
  "cleanJson (JStr s) = JStr s"
proof -
  show "length xs \<noteq> 1 \<Longrightarrow> cleanJson (JArr xs) = JArr (map cleanJson xs)"
    by (auto simp: cleanJson_map_eq split: list.splits)
  show "own_keys (map fst es) \<Longrightarrow> ''__proto__'' \<notin> set (map fst es) \<Longrightarrow>
    cleanJson (JObj p es) =
      JPlain (map (\<lambda>e. (fst e, cleanJson (snd e))) (filter (\<lambda>e. fst e \<noteq> ''$'') es))"
    using cleanJson_entries_eq [of "[]" es ObjectProto]
    by (simp add: empty_obj_def obj_value_def)
qed simp_all

lemma obj_set_all:
  "\<forall>e\<in>set (snd ob). P e \<Longrightarrow> P (k, v) \<Longrightarrow> \<forall>e\<in>set (snd (obj_set ob k v)). P e"
  using obj_set_entries [of ob k v] by blast

text \<open>
  Whatever the input, the output has its keys in order and no sequence of length one.
\<close>

lemma cleanJson_normal:
  "own_order (cleanJson v) \<and> \<not> has_single (cleanJson v)"
  "length (cleanJson_map xs) = length xs \<and>
   (\<forall>x\<in>set (cleanJson_map xs). own_order x \<and> \<not> has_single x)"
  "own_keys (map fst (snd cleaned))
     \<and> (\<forall>e\<in>set (snd cleaned). own_order (snd e) \<and> \<not> has_single (snd e)) \<Longrightarrow>
   own_keys (map fst (snd (cleanJson_entries es cleaned)))
     \<and> (\<forall>e\<in>set (snd (cleanJson_entries es cleaned)). own_order (snd e) \<and> \<not> has_single (snd e))"
proof (induction v and xs and es cleaned rule: cleanJson_cleanJson_map_cleanJson_entries.induct)
  case (1 xs)
  then show ?case by (auto split: list.splits)
next
  case (2 p es)
  then show ?case by (simp add: empty_obj_def obj_value_def own_keys_Nil)
next
  case (10 key val es cleaned)
  show ?case
  proof (cases "key = ''$''")
    case True
    with 10 show ?thesis by simp
  next
    case False
    from 10(2) [OF False] have v: "own_order (cleanJson val) \<and> \<not> has_single (cleanJson val)" .
    from 10(4) have k: "own_keys (map fst (snd (obj_set cleaned key (cleanJson val))))"
      by (simp add: own_keys_obj_set)
    from 10(4) v
    have "\<forall>e\<in>set (snd (obj_set cleaned key (cleanJson val))).
        own_order (snd e) \<and> \<not> has_single (snd e)"
      by (intro obj_set_all) simp_all
    with k 10(3) [OF False] False show ?thesis by simp
  qed
qed simp_all

lemma obj_set_plain:
  assumes "plain (obj_value ob)" and "k \<noteq> ''__proto__''" and "plain v"
  shows "plain (obj_value (obj_set ob k v))"
proof -
  from assms(2) have "fst (obj_set ob k v) = fst ob"
    by (cases ob) (simp add: obj_set_def)
  moreover from assms have "\<forall>e\<in>set (snd (obj_set ob k v)). fst e \<noteq> ''__proto__'' \<and> plain (snd e)"
    by (intro obj_set_all) (simp_all add: obj_value_def)
  ultimately show ?thesis using assms(1) by (simp add: obj_value_def)
qed

lemma cleanJson_plain:
  "plain v \<Longrightarrow> plain (cleanJson v)"
  "\<forall>x\<in>set xs. plain x \<Longrightarrow> \<forall>x\<in>set (cleanJson_map xs). plain x"
  "\<forall>e\<in>set es. fst e \<noteq> ''__proto__'' \<and> plain (snd e) \<Longrightarrow> plain (obj_value cleaned) \<Longrightarrow>
   plain (obj_value (cleanJson_entries es cleaned))"
proof (induction v and xs and es cleaned rule: cleanJson_cleanJson_map_cleanJson_entries.induct)
  case (1 xs)
  then show ?case by (auto split: list.splits)
next
  case (2 p es)
  then show ?case by (simp add: empty_obj_def obj_value_def)
next
  case (10 key val es cleaned)
  show ?case
  proof (cases "key = ''$''")
    case True
    with 10 show ?thesis by simp
  next
    case False
    from 10(4) have kv: "key \<noteq> ''__proto__''" "plain val"
      and rest: "\<forall>e\<in>set es. fst e \<noteq> ''__proto__'' \<and> plain (snd e)"
      by simp_all
    from 10(2) [OF False kv(2)] have "plain (cleanJson val)" .
    with 10(5) kv(1) have "plain (obj_value (obj_set cleaned key (cleanJson val)))"
      by (intro obj_set_plain)
    from 10(3) [OF False rest this] False show ?thesis by simp
  qed
qed simp_all

lemma cleanJson_fixed:
  "plain w \<Longrightarrow> own_order w \<Longrightarrow> \<not> has_marker w \<Longrightarrow> \<not> has_single w \<Longrightarrow> cleanJson w = w"
proof (induction w)
  case (JArr xs)
  then have "map cleanJson xs = xs" by (auto intro!: map_idI)
  with JArr.prems show ?case by (auto simp: cleanJson_map_eq split: list.splits)
next
  case (JObj p es)
  from JObj.prems have p: "p = ObjectProto" and np: "''__proto__'' \<notin> set (map fst es)"
    and ok: "own_keys (map fst es)"
    by auto
  have f: "filter (\<lambda>e. fst e \<noteq> ''$'') es = es" using JObj.prems by (auto intro!: filter_True)
  have "\<And>e. e \<in> set es \<Longrightarrow> cleanJson (snd e) = snd e"
    using JObj by (auto simp: snds.simps)
  then have m: "map (\<lambda>e. (fst e, cleanJson (snd e))) es = es" by (auto intro!: map_idI)
  from cleanJson_case_analysis(3) [OF ok np, of p] f m p show ?case by simp
qed simp_all

lemma cleanJson_collapse:
  "plain v \<Longrightarrow> own_order v \<Longrightarrow> \<not> has_marker v \<Longrightarrow> cleanJson v = collapse v"
proof (induction v)
  case (JArr xs)
  then have "map cleanJson xs = map collapse xs" by auto
  with JArr show ?case by (auto simp: cleanJson_map_eq split: list.splits)
next
  case (JObj p es)
  from JObj.prems have p: "p = ObjectProto" and np: "''__proto__'' \<notin> set (map fst es)"
    and ok: "own_keys (map fst es)"
    by auto
  have f: "filter (\<lambda>e. fst e \<noteq> ''$'') es = es" using JObj.prems by (auto intro!: filter_True)
  have "\<And>e. e \<in> set es \<Longrightarrow> cleanJson (snd e) = collapse (snd e)"
    using JObj by (auto simp: snds.simps)
  then have m: "map (\<lambda>e. (fst e, cleanJson (snd e))) es = map (\<lambda>e. (fst e, collapse (snd e))) es"
    by auto
  from cleanJson_case_analysis(3) [OF ok np, of p] f m p show ?case by simp
qed simp_all

text \<open>
  On the values without a key \<^verbatim>\<open>__proto__\<close>, \<open>cleanJson\<close> is idempotent.
\<close>

lemma cleanJson_idempotent_plain: "plain v \<Longrightarrow> cleanJson (cleanJson v) = cleanJson v"
  using cleanJson_normal(1) [of v] cleanJson_marker_free(1) [of v] cleanJson_plain(1) [of v]
  by (intro cleanJson_fixed) simp_all

text \<open>
  C1 asks that \<open>cleanJson\<close> of a mapping be the mapping without the entry at the key
  \<open>$\<close> and with every retained value cleaned. The code does so for every key but
  \<^verbatim>\<open>__proto__\<close>: the assignment \<^verbatim>\<open>cleaned[key] = cleanJson(value)\<close> at that key runs the
  setter inherited from \<^verbatim>\<open>Object.prototype\<close> and creates no entry. For the object with
  the entries \<^verbatim>\<open>__proto__: {x: 1}\<close> and \<^verbatim>\<open>a: 2\<close> the result has the single entry
  \<^verbatim>\<open>a: 2\<close>, and the cleaned \<^verbatim>\<open>{x: 1}\<close> has become its prototype; the same happens to
  the tree of an XML element named \<^verbatim>\<open>__proto__\<close>.
\<close>

theorem cleanJson_proto_key:
  "cleanJson (JPlain [(''__proto__'', JPlain [(''x'', JNum 1)]), (''a'', JNum 2)]) =
     JObj (ValueProto (JPlain [(''x'', JNum 1)])) [(''a'', JNum 2)]
   \<and> cleanJson (JPlain [(''__proto__'', JPlain [(''x'', JNum 1)]), (''a'', JNum 2)]) \<noteq>
       JPlain [(''__proto__'', JPlain [(''x'', JNum 1)]), (''a'', JNum 2)]
   \<and> own_prop (cleanJson (JPlain [(''__proto__'', JPlain [(''x'', JNum 1)]), (''a'', JNum 2)]))
         ''__proto__'' = None
   \<and> cleanJson (JPlain [(''__proto__'', JArr [JPlain [(''x'', JArr [JStr ''1''])]]),
                          (''a'', JArr [JStr ''2''])]) =
       JObj (ValueProto (JPlain [(''x'', JStr ''1'')])) [(''a'', JStr ''2'')]"
  by (simp add: obj_set_def empty_obj_def obj_value_def placed_before_def array_index_def
      digit_val_def)

text \<open>
  C6 asks that \<open>cleanJson\<close> return a value with no key \<open>$\<close> and no single-element
  sequence as it is. The code does not for a value with a key \<^verbatim>\<open>__proto__\<close>: the object
  with the entries \<^verbatim>\<open>__proto__: 1\<close> and \<^verbatim>\<open>a: 2\<close> has no key \<open>$\<close> and no sequence
  at all, and is cleaned to the object with the single entry \<^verbatim>\<open>a: 2\<close>, because the
  setter behind the assignment \<^verbatim>\<open>cleaned[key] = ...\<close> ignores a number. When the value at
  the key is an object, a second cleaning returns another value than the first: the first
  result has that object as its prototype, the second result has \<^verbatim>\<open>Object.prototype\<close>.
\<close>

theorem cleanJson_drops_proto_entry:
  "\<not> has_marker (JPlain [(''__proto__'', JNum 1), (''a'', JNum 2)])
   \<and> \<not> has_single (JPlain [(''__proto__'', JNum 1), (''a'', JNum 2)])
   \<and> collapse (JPlain [(''__proto__'', JNum 1), (''a'', JNum 2)]) =
       JPlain [(''__proto__'', JNum 1), (''a'', JNum 2)]
   \<and> cleanJson (JPlain [(''__proto__'', JNum 1), (''a'', JNum 2)]) = JPlain [(''a'', JNum 2)]
   \<and> cleanJson (JPlain [(''__proto__'', JNum 1), (''a'', JNum 2)]) \<noteq>
       JPlain [(''__proto__'', JNum 1), (''a'', JNum 2)]
   \<and> cleanJson (cleanJson (JPlain [(''__proto__'', JPlain [(''x'', JNum 1)]), (''a'', JNum 2)])) =
       JPlain [(''a'', JNum 2)]
   \<and> cleanJson (cleanJson (JPlain [(''__proto__'', JPlain [(''x'', JNum 1)]), (''a'', JNum 2)])) \<noteq>
       cleanJson (JPlain [(''__proto__'', JPlain [(''x'', JNum 1)]), (''a'', JNum 2)])"
  by (simp add: obj_set_def empty_obj_def obj_value_def placed_before_def array_index_def
      digit_val_def)

section \<open>Properties of flattenJson\<close>

lemma flattenJson_loop_leaves:
  "flattenJson_loop m prefix acc = foldl bind_entry acc (leaves prefix m)"
  by (induction m prefix acc rule: flattenJson_loop.induct) (auto split: jv.splits)

lemma leaves_no_mapping: "\<forall>e\<in>set (leaves prefix m). \<not> is_mapping (snd e)"
  by (induction prefix m rule: leaves.induct) (auto split: jv.splits)

lemma set_foldl_bind: "set (snd (foldl bind_entry acc bs)) \<subseteq> set (snd acc) \<union> set bs"
proof (induction bs arbitrary: acc)
  case Nil
  then show ?case by simp
next
  case (Cons b bs)
  have "set (snd (obj_set acc (fst b) (snd b))) \<subseteq> insert b (set (snd acc))"
    using obj_set_entries [of acc "fst b" "snd b"] by simp
  with Cons.IH [of "obj_set acc (fst b) (snd b)"] show ?case by auto
qed

text \<open>
  As a map from keys to values, the assignments of the loop are map updates, the last write
  winning, as long as none of them is to the key \<^verbatim>\<open>__proto__\<close>; the prototype of the
  accumulator stays what it was.
\<close>

lemma foldl_bind_lookup:
  "''__proto__'' \<notin> set (map fst bs) \<Longrightarrow>
   fst (foldl bind_entry acc bs) = fst acc
   \<and> map_of (snd (foldl bind_entry acc bs)) = map_of (snd acc) ++ map_of (rev bs)"
proof (induction bs arbitrary: acc)
  case Nil
  then show ?case by simp
next
  case (Cons b bs)
  obtain p es where acc: "acc = (p, es)" by (cases acc)
  from Cons.prems have k: "fst b \<noteq> ''__proto__''" and rest: "''__proto__'' \<notin> set (map fst bs)"
    by auto
  from k map_of_obj_set [of "fst b" es p "snd b"]
  have s: "fst (obj_set acc (fst b) (snd b)) = fst acc"
    "map_of (snd (obj_set acc (fst b) (snd b))) = (map_of (snd acc))(fst b \<mapsto> snd b)"
    unfolding acc by (simp, metis fst_conv, simp)
  have u: "map_of (snd acc) ++ map_of (rev (b # bs)) =
      (map_of (snd acc))(fst b \<mapsto> snd b) ++ map_of (rev bs)"
    by (cases b) simp
  from Cons.IH [OF rest, of "obj_set acc (fst b) (snd b)"]
  have "fst (foldl bind_entry acc (b # bs)) = fst (obj_set acc (fst b) (snd b))"
    and "map_of (snd (foldl bind_entry acc (b # bs))) =
      map_of (snd (obj_set acc (fst b) (snd b))) ++ map_of (rev bs)"
    by simp_all
  then show ?case by (simp only: s u)
qed

lemma flattenJson_loop_lookup:
  "''__proto__'' \<notin> set (map fst (leaves prefix m)) \<Longrightarrow>
   fst (flattenJson_loop m prefix acc) = fst acc
   \<and> map_of (snd (flattenJson_loop m prefix acc)) =
       map_of (snd acc) ++ map_of (rev (leaves prefix m))"
  unfolding flattenJson_loop_leaves by (rule foldl_bind_lookup)

lemma proto_foldl_bind:
  "(case fst acc of ValueProto v \<Rightarrow> \<not> is_mapping v | _ \<Rightarrow> True) \<Longrightarrow>
   \<forall>e\<in>set bs. \<not> is_mapping (snd e) \<Longrightarrow>
   (case fst (foldl bind_entry acc bs) of ValueProto v \<Rightarrow> \<not> is_mapping v | _ \<Rightarrow> True)"
proof (induction bs arbitrary: acc)
  case Nil
  then show ?case by simp
next
  case (Cons b bs)
  from Cons.prems obj_set_proto [of acc "fst b" "snd b"]
  have "case fst (obj_set acc (fst b) (snd b)) of ValueProto v \<Rightarrow> \<not> is_mapping v | _ \<Rightarrow> True"
    by (auto split: proto.splits)
  from Cons.IH [OF this] Cons.prems(2) show ?case by simp
qed

text \<open>The examples of the specification.\<close>

lemma flattenJson_examples:
  "flattenJson (JPlain [(''a'', JPlain [(''b'', JNum 1), (''c'', JNum 2)])]) [] empty_obj =
     Inr (ObjectProto, [(''a/b'', JNum 1), (''a/c'', JNum 2)])"
  "flattenJson (JPlain [(''a'', JArr [JNum 1, JNum 2, JNum 3])]) [] empty_obj =
     Inr (ObjectProto, [(''a'', JArr [JNum 1, JNum 2, JNum 3])])"
  by (simp_all add: flattenJson_def new_key_def obj_set_def empty_obj_def placed_before_def
      array_index_def digit_val_def)

text \<open>
  C2 asks that \<open>flattenJson\<close> bind every value that is not a mapping to its new key. The
  code makes the assignment \<^verbatim>\<open>result[newKey] = value\<close>, and for the new key
  \<^verbatim>\<open>__proto__\<close> this assignment runs the setter inherited from \<^verbatim>\<open>Object.prototype\<close>
  and binds nothing. For the object with the entries \<^verbatim>\<open>__proto__: 1\<close> and \<^verbatim>\<open>a: 2\<close>,
  whose leaves are these two entries, the result has the single entry \<^verbatim>\<open>a: 2\<close>. When the
  value at the key is null or an array, the result loses its prototype or gets the array as
  its prototype, and has no entry at the key either.
\<close>

theorem flattenJson_proto_key:
  "flattenJson (JPlain [(''__proto__'', JNum 1), (''a'', JNum 2)]) [] empty_obj =
     Inr (ObjectProto, [(''a'', JNum 2)])
   \<and> leaves [] [(''__proto__'', JNum 1), (''a'', JNum 2)] =
       [(''__proto__'', JNum 1), (''a'', JNum 2)]
   \<and> own_prop (JObj ObjectProto [(''a'', JNum 2)]) ''__proto__'' = None
   \<and> flattenJson (JPlain [(''__proto__'', JNull), (''a'', JNum 2)]) [] empty_obj =
       Inr (NullProto, [(''a'', JNum 2)])
   \<and> flattenJson (JPlain [(''__proto__'', JArr [JNum 1]), (''a'', JNum 2)]) [] empty_obj =
       Inr (ValueProto (JArr [JNum 1]), [(''a'', JNum 2)])"
  by (simp add: flattenJson_def new_key_def obj_set_def empty_obj_def placed_before_def
      array_index_def digit_val_def)

text \<open>
  C5, as the specification states it, fails: an array is bound as it is, so a value in the
  result can be a container.
\<close>

theorem flattenJson_array_value:
  "flattenJson (JPlain [(''a'', JArr [JNum 1, JNum 2, JNum 3])]) [] empty_obj =
     Inr (ObjectProto, [(''a'', JArr [JNum 1, JNum 2, JNum 3])])
   \<and> (''a'', JArr [JNum 1, JNum 2, JNum 3]) \<in> set [(''a'', JArr [JNum 1, JNum 2, JNum 3])]
   \<and> is_container (JArr [JNum 1, JNum 2, JNum 3])"
  by (simp add: flattenJson_def new_key_def obj_set_def empty_obj_def)

text \<open>
  C5, amended. No value in the result of \<open>flattenJson\<close> on a mapping is itself a mapping:
  every value bound to a flattened key is a scalar, null or an array. Nor is a mapping ever
  made the prototype of the result.
\<close>

theorem flattenJson_no_mapping_value:
  "flattenJson (JObj p m) prefix empty_obj = Inr (flattenJson_loop m prefix empty_obj)
   \<and> list_all (\<lambda>e. \<not> is_mapping (snd e)) (snd (flattenJson_loop m prefix empty_obj))
   \<and> (case fst (flattenJson_loop m prefix empty_obj) of
         ValueProto v \<Rightarrow> \<not> is_mapping v
       | _ \<Rightarrow> True)"
proof -
  have "list_all (\<lambda>e. \<not> is_mapping (snd e)) (snd (flattenJson_loop m prefix empty_obj))"
    using set_foldl_bind [of empty_obj "leaves prefix m"] leaves_no_mapping [of prefix m]
    by (auto simp: flattenJson_loop_leaves list_all_iff empty_obj_def)
  moreover have "case fst (flattenJson_loop m prefix empty_obj) of
      ValueProto v \<Rightarrow> \<not> is_mapping v | _ \<Rightarrow> True"
    unfolding flattenJson_loop_leaves
    by (rule proto_foldl_bind) (simp_all add: empty_obj_def leaves_no_mapping)
  ultimately show ?thesis by (simp add: flattenJson_def)
qed

theorem flattenJson_no_mapping_value_witness:
  "flattenJson (JPlain [(''a'', JPlain [(''b'', JNum 1), (''c'', JPlain [])]),
                        (''d'', JArr [JPlain []])]) [] empty_obj =
     Inr (ObjectProto, [(''a/b'', JNum 1), (''d'', JArr [JPlain []])])
   \<and> list_all (\<lambda>e. \<not> is_mapping (snd e)) [(''a/b'', JNum 1), (''d'', JArr [JPlain []])]"
  using flattenJson_no_mapping_value
    [of ObjectProto "[(''a'', JPlain [(''b'', JNum 1), (''c'', JPlain [])]), (''d'', JArr [JPlain []])]"
      "[]"]
  by (simp add: new_key_def obj_set_def empty_obj_def placed_before_def array_index_def
      digit_val_def)

section \<open>Properties of the path selection\<close>

lemma split_dot_nonempty: "split_dot p \<noteq> []"
  by (induction p) (auto split: list.splits)

lemma sel_step_null: "sel_step e (Val JNull) key = Inr (Val JNull)"
  by (simp add: sel_step_def)

lemma foldl_reduce_step_null: "foldl (reduce_step e) (Inr (Val JNull)) segs = Inr (Val JNull)"
  by (induction segs) (simp_all add: reduce_step_def sel_step_null)

lemma foldl_reduce_step_thrown: "foldl (reduce_step e) (Inl msg) segs = Inl msg"
  by (induction segs) (simp_all add: reduce_step_def)

lemma foldl_spec_step_null: "foldl spec_step JNull segs = JNull"
  by (induction segs) (simp_all add: spec_step_def)

text \<open>What a call of the reducer returns is null or non-falsy.\<close>

lemma or_null_result: "or_null r = Inr d \<Longrightarrow> d = Val JNull \<or> truthy_sel d"
  by (auto simp: or_null_def split: sum.splits option.splits if_splits)

lemma sel_step_result: "sel_step e acc key = Inr d \<Longrightarrow> d = Val JNull \<or> truthy_sel d"
  using or_null_result by (auto simp: sel_step_def split: if_splits)

lemma foldl_reduce_step_result:
  assumes "segs \<noteq> []" and "foldl (reduce_step e) root segs = Inr d"
  shows "d = Val JNull \<or> truthy_sel d"
proof (cases segs rule: rev_cases)
  case Nil
  with assms(1) show ?thesis by simp
next
  case (snoc ss k)
  with assms(2) have "reduce_step e (foldl (reduce_step e) root ss) k = Inr d" by simp
  then obtain a where "sel_step e a k = Inr d"
    by (auto simp: reduce_step_def split: sum.splits)
  then show ?thesis by (rule sel_step_result)
qed

lemma select_reduce_result:
  "select_reduce e root p = Inr d \<Longrightarrow> d = Val JNull \<or> truthy_sel d"
  unfolding select_reduce_def by (rule foldl_reduce_step_result [OF split_dot_nonempty])

text \<open>An own property hides whatever the prototype chain has at the key.\<close>

lemma sel_step_own:
  "truthy v \<Longrightarrow> own_prop v key = Some x \<Longrightarrow>
   sel_step e (Val v) key = Inr (if truthy x then Val x else Val JNull)"
  by (simp add: sel_step_def get_prop_def or_null_def)

lemma sel_step_inherited:
  "truthy v \<Longrightarrow> own_prop v key = None \<Longrightarrow>
   sel_step e (Val v) key = or_null (inherited e v v key)"
  by (simp add: sel_step_def get_prop_def)

lemma index_not_length: "array_index key = Some i \<Longrightarrow> key \<noteq> ''length''"
  by (auto simp: array_index_def digit_val_def)

lemma spec_step_resolved:
  "spec_step acc key \<noteq> JNull \<Longrightarrow> sel_step e (Val acc) key = Inr (Val (spec_step acc key))"
  by (cases acc)
     (auto simp: spec_step_def sel_step_def get_prop_def or_null_def split: option.splits if_splits)

lemma foldl_spec_resolved:
  "foldl spec_step acc segs \<noteq> JNull \<Longrightarrow>
   foldl (reduce_step e) (Inr (Val acc)) segs = Inr (Val (foldl spec_step acc segs))"
proof (induction segs arbitrary: acc)
  case Nil
  then show ?case by simp
next
  case (Cons k ks)
  from Cons.prems have "spec_step acc k \<noteq> JNull"
    by (auto simp: foldl_spec_step_null)
  then have "sel_step e (Val acc) k = Inr (Val (spec_step acc k))" by (rule spec_step_resolved)
  with Cons show ?case by (simp add: reduce_step_def)
qed

text \<open>
  C3, amended. The selection folds over the dot-separated segments of the path, of which
  there is always at least one, starting from the root. A step reads \<^verbatim>\<open>current[key]\<close> and
  descends into what it reads when the current value and the value read are both
  non-falsy; otherwise the step yields null, and null stays null for the remaining
  segments, so a result is null (absent) or a non-falsy value. The read finds an own
  property first: the entry of a mapping, the element of a sequence or the character of a
  string at a decimal index, the length of either. Where there is no own property (a key
  the mapping lacks, a key of a sequence or string that is neither \<^verbatim>\<open>length\<close> nor an
  index in range, any key of a number or of \<^verbatim>\<open>true\<close>) the read goes up the prototype
  chain: to the entries of an object that an assignment to \<^verbatim>\<open>__proto__\<close> installed, and
  to the members of the built-in prototype, so the step is absent exactly when nothing
  non-falsy is inherited either; and if the inherited member is an accessor that throws,
  the selection ends with that exception. Whenever the walk through own entries of
  mappings only, as the specification words it, resolves, the code returns the same value;
  and a present falsy value (0, false, the empty string) gives absent, as a missing key
  does.
\<close>

theorem select_reduce_walk:
  "select_reduce e root path = foldl (reduce_step e) (Inr (Val root)) (split_dot path)
   \<and> split_dot path \<noteq> []
   \<and> reduce_step e (Inr a) key = sel_step e a key
   \<and> reduce_step e (Inl msg) key = Inl msg
   \<and> foldl (reduce_step e) (Inr (Val JNull)) segs = Inr (Val JNull)
   \<and> foldl (reduce_step e) (Inl msg) segs = Inl msg
   \<and> (select_reduce e root path = Inr d \<longrightarrow> d = Val JNull \<or> truthy_sel d)
   \<and> or_null (Inl msg) = Inl msg
   \<and> or_null (Inr None) = Inr (Val JNull)
   \<and> or_null (Inr (Some r)) = Inr (if truthy_sel r then r else Val JNull)
   \<and> (map_of es key = Some x \<longrightarrow>
        sel_step e (Val (JObj p es)) key = Inr (if truthy x then Val x else Val JNull))
   \<and> (map_of es key = None \<longrightarrow>
        sel_step e (Val (JPlain es)) key = or_null (builtin_get e ObjectK (JPlain es) key))
   \<and> (map_of es key = None \<longrightarrow> sel_step e (Val (JObj NullProto es)) key = Inr (Val JNull))
   \<and> (map_of es key = None \<and> own_prop u key = Some x \<longrightarrow>
        sel_step e (Val (JObj (ValueProto u) es)) key =
          Inr (if truthy x then Val x else Val JNull))
   \<and> (map_of es key = None \<and> own_prop u key = None \<longrightarrow>
        sel_step e (Val (JObj (ValueProto u) es)) key =
          or_null (inherited e (JObj (ValueProto u) es) u key))
   \<and> (array_index key = Some i \<and> i < length xs \<longrightarrow>
        sel_step e (Val (JArr xs)) key =
          Inr (if truthy (xs ! i) then Val (xs ! i) else Val JNull))
   \<and> sel_step e (Val (JArr xs)) ''length'' =
        Inr (if xs = [] then Val JNull else Val (JNum (int (length xs))))
   \<and> (key \<noteq> ''length'' \<and> (array_index key = None \<or> array_index key = Some i \<and> length xs \<le> i) \<longrightarrow>
        sel_step e (Val (JArr xs)) key = or_null (builtin_get e ArrayK (JArr xs) key))
   \<and> (array_index key = Some i \<and> i < length s \<longrightarrow>
        sel_step e (Val (JStr s)) key = Inr (Val (JStr [s ! i])))
   \<and> sel_step e (Val (JStr s)) ''length'' =
        Inr (if s = [] then Val JNull else Val (JNum (int (length s))))
   \<and> (s \<noteq> [] \<and> key \<noteq> ''length''
        \<and> (array_index key = None \<or> array_index key = Some i \<and> length s \<le> i) \<longrightarrow>
        sel_step e (Val (JStr s)) key = or_null (builtin_get e StringK (JStr s) key))
   \<and> sel_step e (Val (JNum n)) key =
        (if n = 0 then Inr (Val JNull) else or_null (builtin_get e NumberK (JNum n) key))
   \<and> sel_step e (Val (JBool b)) key =
        (if b then or_null (builtin_get e BooleanK (JBool b) key) else Inr (Val JNull))
   \<and> sel_step e (Val JNull) key = Inr (Val JNull)
   \<and> sel_step e (Native m) key = or_null (native_get e m key)
   \<and> (select_spec root path \<noteq> JNull \<longrightarrow>
        select_reduce e root path = Inr (Val (select_spec root path)))
   \<and> select_reduce e (JPlain [(''a'', JPlain [(''b'', JPlain [(''c'', JNum 42)])])]) ''a.b.c'' =
        Inr (Val (JNum 42))
   \<and> (builtin_get e ObjectK (JPlain []) ''b'' = Inr None \<longrightarrow>
        select_reduce e (JPlain [(''a'', JPlain [])]) ''a.b.c'' = Inr (Val JNull))
   \<and> select_reduce e (JPlain [(''a'', JNum 0)]) ''a'' = Inr (Val JNull)
   \<and> select_reduce e (JPlain [(''a'', JBool False)]) ''a'' = Inr (Val JNull)
   \<and> select_reduce e (JPlain [(''a'', JStr [])]) ''a'' = Inr (Val JNull)
   \<and> (builtin_get e ObjectK (JPlain []) ''a'' = Inr None \<longrightarrow>
        select_reduce e (JPlain []) ''a'' = Inr (Val JNull))"
proof -
  have def: "select_reduce e root path = foldl (reduce_step e) (Inr (Val root)) (split_dot path)"
    by (simp add: select_reduce_def)
  have rs1: "reduce_step e (Inr a) key = sel_step e a key"
    and rs2: "reduce_step e (Inl msg) key = Inl msg"
    by (simp_all add: reduce_step_def)
  have res: "select_reduce e root path = Inr d \<longrightarrow> d = Val JNull \<or> truthy_sel d"
    using select_reduce_result [of e root path d] by blast
  have orl: "or_null (Inl msg) = Inl msg"
    and orn: "or_null (Inr None) = Inr (Val JNull)"
    and ors: "or_null (Inr (Some r)) = Inr (if truthy_sel r then r else Val JNull)"
    by (simp_all add: or_null_def)
  have m1: "map_of es key = Some x \<longrightarrow>
      sel_step e (Val (JObj p es)) key = Inr (if truthy x then Val x else Val JNull)"
    by (simp add: sel_step_own)
  have m2: "map_of es key = None \<longrightarrow>
      sel_step e (Val (JPlain es)) key = or_null (builtin_get e ObjectK (JPlain es) key)"
    by (simp add: sel_step_inherited)
  have m3: "map_of es key = None \<longrightarrow> sel_step e (Val (JObj NullProto es)) key = Inr (Val JNull)"
    by (simp add: sel_step_inherited or_null_def)
  have m4: "map_of es key = None \<and> own_prop u key = Some x \<longrightarrow>
      sel_step e (Val (JObj (ValueProto u) es)) key =
        Inr (if truthy x then Val x else Val JNull)"
    by (simp add: sel_step_inherited or_null_def)
  have m5: "map_of es key = None \<and> own_prop u key = None \<longrightarrow>
      sel_step e (Val (JObj (ValueProto u) es)) key =
        or_null (inherited e (JObj (ValueProto u) es) u key)"
    by (simp add: sel_step_inherited)
  have s1: "array_index key = Some i \<and> i < length xs \<longrightarrow>
      sel_step e (Val (JArr xs)) key =
        Inr (if truthy (xs ! i) then Val (xs ! i) else Val JNull)"
    using index_not_length [of key i] by (auto simp: sel_step_own)
  have s2: "sel_step e (Val (JArr xs)) ''length'' =
      Inr (if xs = [] then Val JNull else Val (JNum (int (length xs))))"
    by (simp add: sel_step_own)
  have s3: "key \<noteq> ''length'' \<and> (array_index key = None \<or> array_index key = Some i \<and> length xs \<le> i) \<longrightarrow>
      sel_step e (Val (JArr xs)) key = or_null (builtin_get e ArrayK (JArr xs) key)"
    by (auto simp: sel_step_inherited)
  have t1: "array_index key = Some i \<and> i < length s \<longrightarrow>
      sel_step e (Val (JStr s)) key = Inr (Val (JStr [s ! i]))"
    using index_not_length [of key i] by (auto simp: sel_step_def get_prop_def or_null_def)
  have t2: "sel_step e (Val (JStr s)) ''length'' =
      Inr (if s = [] then Val JNull else Val (JNum (int (length s))))"
    by (simp add: sel_step_def get_prop_def or_null_def)
  have t3: "s \<noteq> [] \<and> key \<noteq> ''length''
      \<and> (array_index key = None \<or> array_index key = Some i \<and> length s \<le> i) \<longrightarrow>
      sel_step e (Val (JStr s)) key = or_null (builtin_get e StringK (JStr s) key)"
    by (auto simp: sel_step_inherited)
  have n1: "sel_step e (Val (JNum n)) key =
      (if n = 0 then Inr (Val JNull) else or_null (builtin_get e NumberK (JNum n) key))"
    by (simp add: sel_step_def get_prop_def)
  have b1: "sel_step e (Val (JBool b)) key =
      (if b then or_null (builtin_get e BooleanK (JBool b) key) else Inr (Val JNull))"
    by (simp add: sel_step_def get_prop_def)
  have nat: "sel_step e (Native m) key = or_null (native_get e m key)"
    by (simp add: sel_step_def)
  have agree: "select_spec root path \<noteq> JNull \<longrightarrow>
      select_reduce e root path = Inr (Val (select_spec root path))"
    unfolding select_reduce_def select_spec_def by (simp add: foldl_spec_resolved)
  have ex1: "select_reduce e (JPlain [(''a'', JPlain [(''b'', JPlain [(''c'', JNum 42)])])]) ''a.b.c'' =
      Inr (Val (JNum 42))"
    by (simp add: select_reduce_def reduce_step_def sel_step_def get_prop_def or_null_def)
  have ex2: "builtin_get e ObjectK (JPlain []) ''b'' = Inr None \<longrightarrow>
      select_reduce e (JPlain [(''a'', JPlain [])]) ''a.b.c'' = Inr (Val JNull)"
    by (simp add: select_reduce_def reduce_step_def sel_step_def get_prop_def or_null_def)
  have ex3: "select_reduce e (JPlain [(''a'', JNum 0)]) ''a'' = Inr (Val JNull)"
    and ex4: "select_reduce e (JPlain [(''a'', JBool False)]) ''a'' = Inr (Val JNull)"
    and ex5: "select_reduce e (JPlain [(''a'', JStr [])]) ''a'' = Inr (Val JNull)"
    and ex6: "builtin_get e ObjectK (JPlain []) ''a'' = Inr None \<longrightarrow>
      select_reduce e (JPlain []) ''a'' = Inr (Val JNull)"
    by (simp_all add: select_reduce_def reduce_step_def sel_step_def get_prop_def or_null_def)
  from def split_dot_nonempty [of path] rs1 rs2 foldl_reduce_step_null [of e segs]
    foldl_reduce_step_thrown [of e msg segs] res orl orn ors m1 m2 m3 m4 m5 s1 s2 s3 t1 t2 t3
    n1 b1 sel_step_null [of e key] nat agree ex1 ex2 ex3 ex4 ex5 ex6
  show ?thesis by blast
qed

text \<open>
  C3, as the specification states it, fails: the walk also descends from a sequence. With
  the document \<^verbatim>\<open>{"a": [[1, 2]]}\<close> and the path \<^verbatim>\<open>a.0\<close> the current value at the
  segment \<^verbatim>\<open>0\<close> is a sequence, not a mapping, and the result is \<^verbatim>\<open>[1, 2]\<close>, not absent.
\<close>

theorem select_reduce_through_sequence:
  "select_reduce demo_engine (JPlain [(''a'', JArr [JArr [JNum 1, JNum 2]])]) ''a.0'' =
     Inr (Val (JArr [JNum 1, JNum 2]))
   \<and> \<not> is_mapping (JArr [JArr [JNum 1, JNum 2]])
   \<and> select_spec (JPlain [(''a'', JArr [JArr [JNum 1, JNum 2]])]) ''a.0'' = JNull"
  by (simp add: select_reduce_def select_spec_def reduce_step_def sel_step_def get_prop_def
      or_null_def spec_step_def array_index_def digit_val_def)

theorem select_reduce_walk_witness:
  "map_of [(''1'', JStr ''v'')] ''1'' = Some (JStr ''v'')
   \<and> sel_step demo_engine (Val (JPlain [(''1'', JStr ''v'')])) ''1'' = Inr (Val (JStr ''v''))
   \<and> array_index ''1'' = Some 1 \<and> 1 < length [JNull, JStr ''v'']
   \<and> sel_step demo_engine (Val (JArr [JNull, JStr ''v''])) ''1'' = Inr (Val (JStr ''v''))
   \<and> sel_step demo_engine (Val (JStr ''xyz'')) ''1'' = Inr (Val (JStr ''y''))
   \<and> select_spec (JPlain [(''rows'', JArr [JNum 7])]) ''rows'' \<noteq> JNull
   \<and> select_reduce demo_engine (JPlain [(''rows'', JArr [JNum 7])]) ''rows'' =
       Inr (Val (JArr [JNum 7]))
   \<and> truthy_sel (Val (JArr [JNum 7]))
   \<and> builtin_get demo_engine ObjectK (JPlain []) ''b'' = Inr None
   \<and> select_reduce demo_engine (JPlain [(''a'', JPlain [])]) ''a.b.c'' = Inr (Val JNull)
   \<and> builtin_get demo_engine ObjectK (JPlain []) ''a'' = Inr None
   \<and> select_reduce demo_engine (JPlain []) ''a'' = Inr (Val JNull)
   \<and> map_of [(''a'', JNum 1)] ''toString'' = None
   \<and> sel_step demo_engine (Val (JPlain [(''a'', JNum 1)])) ''toString'' = Inr (Native 5)
   \<and> sel_step demo_engine (Val (JObj NullProto [(''a'', JNum 1)])) ''toString'' = Inr (Val JNull)
   \<and> own_prop (JPlain [(''toString'', JNum 5)]) ''toString'' = Some (JNum 5)
   \<and> sel_step demo_engine
        (Val (JObj (ValueProto (JPlain [(''toString'', JNum 5)])) [(''a'', JNum 1)])) ''toString'' =
       Inr (Val (JNum 5))
   \<and> array_index ''toString'' = None
   \<and> sel_step demo_engine (Val (JArr [JNull])) ''toString'' = Inr (Native 5)
   \<and> sel_step demo_engine (Val (JStr ''xyz'')) ''toString'' = Inr (Native 5)
   \<and> own_prop (JPlain []) ''toString'' = None
   \<and> sel_step demo_engine (Val (JObj (ValueProto (JPlain [])) [(''a'', JNum 1)])) ''toString'' =
       Inr (Native 5)
   \<and> sel_step demo_engine (Native 0) ''caller'' =
       Inl ''caller may not be accessed on this function''"
  using
    select_reduce_walk [where e = demo_engine and root = "JPlain [(''rows'', JArr [JNum 7])]"
      and path = "''rows''" and a = "Val JNull" and msg = "[]" and segs = "[]"
      and d = "Val (JArr [JNum 7])" and r = "Native 5" and es = "[(''1'', JStr ''v'')]"
      and key = "''1''" and x = "JStr ''v''" and p = ObjectProto and u = JNull and i = 1
      and xs = "[JNull, JStr ''v'']" and s = "''xyz''" and n = 0 and b = True and m = 0]
    select_reduce_walk [where e = demo_engine and root = JNull
      and path = "[]" and a = "Val JNull" and msg = "[]" and segs = "[]"
      and d = "Val JNull" and r = "Native 5" and es = "[(''a'', JNum 1)]"
      and key = "''toString''" and x = "JNum 5" and p = ObjectProto
      and u = "JPlain [(''toString'', JNum 5)]" and i = 0
      and xs = "[JNull]" and s = "''xyz''" and n = 0 and b = True and m = 0]
    select_reduce_walk [where e = demo_engine and root = JNull
      and path = "[]" and a = "Val JNull" and msg = "[]" and segs = "[]"
      and d = "Val JNull" and r = "Native 5" and es = "[(''a'', JNum 1)]"
      and key = "''toString''" and x = "JNum 5" and p = ObjectProto
      and u = "JPlain []" and i = 0
      and xs = "[JNull]" and s = "''xyz''" and n = 0 and b = True and m = 0]
    select_reduce_walk [where e = demo_engine and root = JNull
      and path = "[]" and a = "Val JNull" and msg = "[]" and segs = "[]"
      and d = "Val JNull" and r = "Native 5" and es = "[]"
      and key = "''caller''" and x = "JNum 5" and p = ObjectProto
      and u = "JPlain []" and i = 0
      and xs = "[JNull]" and s = "''xyz''" and n = 0 and b = True and m = 0]
  by (simp add: select_reduce_def select_spec_def reduce_step_def sel_step_def get_prop_def
      or_null_def spec_step_def array_index_def digit_val_def demo_engine_def)

section \<open>Properties of the handlers\<close>

lemma falsy_cases: "\<not> truthy v \<Longrightarrow> v = JNull \<or> v = JBool False \<or> v = JNum 0 \<or> v = JStr []"
  by (cases v) auto

lemma ensureDirectory_writes: "ensureDirectory h d w = (e, w1) \<Longrightarrow> writes w1 = writes w"
  by (auto simp: ensureDirectory_def split: if_splits prod.splits)

lemma no_path_msg_neq: "no_path_msg p \<noteq> not_array_msg"
  by (simp add: no_path_msg_def not_array_msg_def)

lemma array_items_val: "array_items e (Val v) = None \<longleftrightarrow> \<not> is_array v"
  by (cases v) simp_all

lemma array_items_truthy: "array_items e d = Some items \<Longrightarrow> truthy_sel d"
  by (cases "(e, d)" rule: array_items.cases) simp_all

text \<open>
  C10. In \<open>jsonToCsv\<close>, when the request gives no \<open>jsonPath\<close> and the file parses
  to a falsy value (null, false, 0 or the empty string), the answer is the 400 response
  whose message says that the JSON path does not exist, with the missing path rendered as
  \<^verbatim>\<open>undefined\<close>, and not the response saying that the data is not an array.
\<close>

theorem jsonToCsv_falsy_without_path:
  assumes "filename req = Some fname" and "fname \<noteq> []" and "jsonPath req = None"
    and "existsSync h (disk w) (json_in h fname)"
    and "readFileSync h (disk w) (json_in h fname) = Inr text"
    and "JSON_parse h text = Inr jsonData"
    and "\<not> truthy jsonData"
  shows "jsonToCsv h req w =
      (BadRequest (error_body
         (''The specified JSON path '' @ [CHR 0x27] @ ''undefined'' @ [CHR 0x27] @
          '' does not exist.'')), w)
    \<and> jsonToCsv h req w \<noteq> (BadRequest (error_body not_array_msg), w)
    \<and> (jsonData = JNull \<or> jsonData = JBool False \<or> jsonData = JNum 0 \<or> jsonData = JStr [])"
proof -
  have r: "jsonToCsv h req w = (BadRequest (error_body (no_path_msg None)), w)"
    using assms by (simp add: jsonToCsv_def jsonToCsv_try_def)
  have m: "no_path_msg None =
      ''The specified JSON path '' @ [CHR 0x27] @ ''undefined'' @ [CHR 0x27] @ '' does not exist.''"
    by (simp add: no_path_msg_def render_path_def)
  have "error_body (no_path_msg None) \<noteq> error_body not_array_msg"
    using no_path_msg_neq [of None] by (simp add: error_body_def)
  with r m falsy_cases [OF assms(7)] show ?thesis by simp
qed

theorem jsonToCsv_falsy_without_path_witness:
  "filename \<lparr>filename = Some ''null.json'', jsonPath = None\<rparr> = Some ''null.json''
   \<and> existsSync (demo_host True) (disk demo_world) (json_in (demo_host True) ''null.json'')
   \<and> readFileSync (demo_host True) (disk demo_world) (json_in (demo_host True) ''null.json'') =
       Inr ''null''
   \<and> JSON_parse (demo_host True) ''null'' = Inr JNull
   \<and> \<not> truthy JNull
   \<and> jsonToCsv (demo_host True) \<lparr>filename = Some ''null.json'', jsonPath = None\<rparr> demo_world =
       (BadRequest (JPlain [(''error'',
          JStr (''The specified JSON path '' @ [CHR 0x27] @ ''undefined'' @ [CHR 0x27] @
                '' does not exist.''))]), demo_world)"
  using jsonToCsv_falsy_without_path [of "\<lparr>filename = Some ''null.json'', jsonPath = None\<rparr>"
      "''null.json''" "demo_host True" demo_world "''null''" JNull]
  by (simp add: demo_host_def demo_world_def demo_json_def error_body_def)

lemma jsonToCsv_try_no_path:
  assumes "readFileSync h (disk w) inp = Inr text" and "JSON_parse h text = Inr jsonData"
    and "p \<noteq> []" and "select_reduce (builtins h) jsonData p = Inr (Val JNull)"
  shows "jsonToCsv_try h (Some p) inp out w = (BadRequest (error_body (no_path_msg (Some p))), w)"
  using assms by (simp add: jsonToCsv_try_def)

lemma jsonToCsv_try_not_array:
  assumes "readFileSync h (disk w) inp = Inr text" and "JSON_parse h text = Inr jsonData"
    and "(case q of None \<Rightarrow> Inr (Val jsonData)
          | Some p \<Rightarrow> if p \<noteq> [] then select_reduce (builtins h) jsonData p
                      else Inr (Val jsonData)) = Inr d"
    and "truthy_sel d" and "array_items (builtins h) d = None"
  shows "jsonToCsv_try h q inp out w = (BadRequest (error_body not_array_msg), w)"
  using assms by (simp add: jsonToCsv_try_def)

lemma convert_try_no_path:
  assumes "readFileSync h (disk w) inp = Inr xmlData" and "parseStringPromise h xmlData = Inr rawJson"
    and "select_reduce (builtins h) (cleanJson rawJson) q = Inr (Val JNull)"
  shows "convert_try h q inp out w = (BadRequest (error_body (no_path_msg (Some q))), w)"
  using assms by (simp add: convert_try_def)

lemma convert_try_not_array:
  assumes "readFileSync h (disk w) inp = Inr xmlData" and "parseStringPromise h xmlData = Inr rawJson"
    and "select_reduce (builtins h) (cleanJson rawJson) q = Inr d" and "d \<noteq> Val JNull"
    and "array_items (builtins h) d = None"
  shows "convert_try h q inp out w = (BadRequest (error_body not_array_msg), w)"
proof -
  from assms(4) select_reduce_result [OF assms(3)] have "truthy_sel d" by simp
  with assms(1,2,3,5) show ?thesis by (simp add: convert_try_def Let_def)
qed

text \<open>An exception in the selection is caught: the answer is the 500 response.\<close>

lemma jsonToCsv_try_thrown:
  assumes "readFileSync h (disk w) inp = Inr text" and "JSON_parse h text = Inr jsonData"
    and "p \<noteq> []" and "select_reduce (builtins h) jsonData p = Inl msg"
  shows "jsonToCsv_try h (Some p) inp out w =
    (ServerError (failure_body ''Failed to convert JSON to CSV.'' msg), w)"
  using assms by (simp add: jsonToCsv_try_def)

lemma convert_try_thrown:
  assumes "readFileSync h (disk w) inp = Inr xmlData" and "parseStringPromise h xmlData = Inr rawJson"
    and "select_reduce (builtins h) (cleanJson rawJson) q = Inl msg"
  shows "convert_try h q inp out w =
    (ServerError (failure_body ''Failed to convert XML to JSON/CSV.'' msg), w)"
  using assms by (simp add: convert_try_def)

lemma jsonToCsv_reaches_try:
  "filename req = Some fname \<Longrightarrow> fname \<noteq> [] \<Longrightarrow> existsSync h (disk w) (json_in h fname) \<Longrightarrow>
   jsonToCsv h req w = jsonToCsv_try h (jsonPath req) (json_in h fname) (csv_out h fname) w"
  by (simp add: jsonToCsv_def)

lemma convert_reaches_try:
  "filename req = Some fname \<Longrightarrow> fname \<noteq> [] \<Longrightarrow>
   ensureDirectory h (uploads_dir h) w = (None, w1) \<Longrightarrow>
   ensureDirectory h (exports_dir h) w1 = (None, w2) \<Longrightarrow>
   existsSync h (disk w2) (upload_in h fname) \<Longrightarrow>
   convert h req w = convert_try h (path_or_default req) (upload_in h fname) (export_out h fname) w2"
  by (simp add: convert_def)

text \<open>
  C7, amended. In \<open>jsonToCsv\<close>, once the file is found, read and parsed: if the request
  gives a non-empty \<open>jsonPath\<close> and the selection yields null, the answer is the 400
  response whose message cites the path; if the selected value, or the whole parsed value
  when the path is missing or empty, is non-falsy and not an array, the answer is the 400
  response saying that the data is not an array. The selected value is what the reducer
  returns, a member inherited from a prototype included. In \<open>convert\<close>, once the file is
  found, read, parsed and cleaned, the same holds for the path of the request or, without
  one, the default path. In each case the handler returns the response with the state it
  had before the \<^verbatim>\<open>try\<close> block: nothing is thrown and nothing is written.
\<close>

theorem path_and_array_errors:
  "(filename req = Some fname \<and> fname \<noteq> [] \<and> existsSync h (disk w) (json_in h fname)
      \<and> readFileSync h (disk w) (json_in h fname) = Inr content \<and> JSON_parse h content = Inr jsonData \<longrightarrow>
      (jsonPath req = Some p \<and> p \<noteq> []
            \<and> select_reduce (builtins h) jsonData p = Inr (Val JNull) \<longrightarrow>
         jsonToCsv h req w =
           (BadRequest (error_body
              (''The specified JSON path '' @ [CHR 0x27] @ p @ [CHR 0x27] @ '' does not exist.'')), w))
      \<and> (jsonPath req = Some p \<and> p \<noteq> [] \<and> select_reduce (builtins h) jsonData p = Inr d
            \<and> d \<noteq> Val JNull \<and> array_items (builtins h) d = None \<longrightarrow>
         jsonToCsv h req w = (BadRequest (error_body not_array_msg), w))
      \<and> ((jsonPath req = None \<or> jsonPath req = Some []) \<and> truthy jsonData \<and> \<not> is_array jsonData \<longrightarrow>
         jsonToCsv h req w = (BadRequest (error_body not_array_msg), w)))
   \<and> (filename req = Some fname \<and> fname \<noteq> []
      \<and> ensureDirectory h (uploads_dir h) w = (None, w1)
      \<and> ensureDirectory h (exports_dir h) w1 = (None, w2)
      \<and> existsSync h (disk w2) (upload_in h fname)
      \<and> readFileSync h (disk w2) (upload_in h fname) = Inr xmlData
      \<and> parseStringPromise h xmlData = Inr rawJson \<longrightarrow>
      (select_reduce (builtins h) (cleanJson rawJson) (path_or_default req) = Inr (Val JNull) \<longrightarrow>
         convert h req w =
           (BadRequest (error_body
              (''The specified JSON path '' @ [CHR 0x27] @ path_or_default req @ [CHR 0x27] @
               '' does not exist.'')), w2))
      \<and> (select_reduce (builtins h) (cleanJson rawJson) (path_or_default req) = Inr d
            \<and> d \<noteq> Val JNull \<and> array_items (builtins h) d = None \<longrightarrow>
         convert h req w = (BadRequest (error_body not_array_msg), w2))
      \<and> writes w2 = writes w)"
proof -
  have msg: "\<And>s. no_path_msg (Some s) =
      ''The specified JSON path '' @ [CHR 0x27] @ s @ [CHR 0x27] @ '' does not exist.''"
    by (simp add: no_path_msg_def render_path_def)
  have j: "filename req = Some fname \<and> fname \<noteq> [] \<and> existsSync h (disk w) (json_in h fname)
      \<and> readFileSync h (disk w) (json_in h fname) = Inr content \<and> JSON_parse h content = Inr jsonData \<longrightarrow>
      (jsonPath req = Some p \<and> p \<noteq> []
            \<and> select_reduce (builtins h) jsonData p = Inr (Val JNull) \<longrightarrow>
         jsonToCsv h req w =
           (BadRequest (error_body
              (''The specified JSON path '' @ [CHR 0x27] @ p @ [CHR 0x27] @ '' does not exist.'')), w))
      \<and> (jsonPath req = Some p \<and> p \<noteq> [] \<and> select_reduce (builtins h) jsonData p = Inr d
            \<and> d \<noteq> Val JNull \<and> array_items (builtins h) d = None \<longrightarrow>
         jsonToCsv h req w = (BadRequest (error_body not_array_msg), w))
      \<and> ((jsonPath req = None \<or> jsonPath req = Some []) \<and> truthy jsonData \<and> \<not> is_array jsonData \<longrightarrow>
         jsonToCsv h req w = (BadRequest (error_body not_array_msg), w))"
  proof (intro impI, elim conjE)
    assume f: "filename req = Some fname" "fname \<noteq> []" "existsSync h (disk w) (json_in h fname)"
      and rd: "readFileSync h (disk w) (json_in h fname) = Inr content"
      and ps: "JSON_parse h content = Inr jsonData"
    note eq = jsonToCsv_reaches_try [OF f]
    have a: "jsonPath req = Some p \<and> p \<noteq> []
          \<and> select_reduce (builtins h) jsonData p = Inr (Val JNull) \<longrightarrow>
        jsonToCsv h req w =
          (BadRequest (error_body
             (''The specified JSON path '' @ [CHR 0x27] @ p @ [CHR 0x27] @ '' does not exist.'')), w)"
      using jsonToCsv_try_no_path [OF rd ps, of p "csv_out h fname"] eq msg [of p] by auto
    have b: "jsonPath req = Some p \<and> p \<noteq> [] \<and> select_reduce (builtins h) jsonData p = Inr d
          \<and> d \<noteq> Val JNull \<and> array_items (builtins h) d = None \<longrightarrow>
        jsonToCsv h req w = (BadRequest (error_body not_array_msg), w)"
    proof (intro impI, elim conjE)
      assume q: "jsonPath req = Some p" "p \<noteq> []"
        and sl: "select_reduce (builtins h) jsonData p = Inr d" and dn: "d \<noteq> Val JNull"
        and na: "array_items (builtins h) d = None"
      from dn select_reduce_result [OF sl] have t: "truthy_sel d" by simp
      have "jsonToCsv_try h (Some p) (json_in h fname) (csv_out h fname) w =
          (BadRequest (error_body not_array_msg), w)"
        by (rule jsonToCsv_try_not_array [OF rd ps _ t na]) (simp add: q sl)
      with eq q show "jsonToCsv h req w = (BadRequest (error_body not_array_msg), w)" by simp
    qed
    have c: "(jsonPath req = None \<or> jsonPath req = Some []) \<and> truthy jsonData
          \<and> \<not> is_array jsonData \<longrightarrow>
        jsonToCsv h req w = (BadRequest (error_body not_array_msg), w)"
    proof (intro impI, elim conjE)
      assume q: "jsonPath req = None \<or> jsonPath req = Some []" and t: "truthy jsonData"
        and na: "\<not> is_array jsonData"
      from t have t': "truthy_sel (Val jsonData)" by simp
      from na have na': "array_items (builtins h) (Val jsonData) = None"
        by (simp add: array_items_val)
      have "jsonToCsv_try h (jsonPath req) (json_in h fname) (csv_out h fname) w =
          (BadRequest (error_body not_array_msg), w)"
        by (rule jsonToCsv_try_not_array [OF rd ps _ t' na']) (use q in auto)
      with eq show "jsonToCsv h req w = (BadRequest (error_body not_array_msg), w)" by simp
    qed
    from a b c show "(jsonPath req = Some p \<and> p \<noteq> []
            \<and> select_reduce (builtins h) jsonData p = Inr (Val JNull) \<longrightarrow>
         jsonToCsv h req w =
           (BadRequest (error_body
              (''The specified JSON path '' @ [CHR 0x27] @ p @ [CHR 0x27] @ '' does not exist.'')), w))
      \<and> (jsonPath req = Some p \<and> p \<noteq> [] \<and> select_reduce (builtins h) jsonData p = Inr d
            \<and> d \<noteq> Val JNull \<and> array_items (builtins h) d = None \<longrightarrow>
         jsonToCsv h req w = (BadRequest (error_body not_array_msg), w))
      \<and> ((jsonPath req = None \<or> jsonPath req = Some []) \<and> truthy jsonData \<and> \<not> is_array jsonData \<longrightarrow>
         jsonToCsv h req w = (BadRequest (error_body not_array_msg), w))"
      by blast
  qed
  have x: "filename req = Some fname \<and> fname \<noteq> []
      \<and> ensureDirectory h (uploads_dir h) w = (None, w1)
      \<and> ensureDirectory h (exports_dir h) w1 = (None, w2)
      \<and> existsSync h (disk w2) (upload_in h fname)
      \<and> readFileSync h (disk w2) (upload_in h fname) = Inr xmlData
      \<and> parseStringPromise h xmlData = Inr rawJson \<longrightarrow>
      (select_reduce (builtins h) (cleanJson rawJson) (path_or_default req) = Inr (Val JNull) \<longrightarrow>
         convert h req w =
           (BadRequest (error_body
              (''The specified JSON path '' @ [CHR 0x27] @ path_or_default req @ [CHR 0x27] @
               '' does not exist.'')), w2))
      \<and> (select_reduce (builtins h) (cleanJson rawJson) (path_or_default req) = Inr d
            \<and> d \<noteq> Val JNull \<and> array_items (builtins h) d = None \<longrightarrow>
         convert h req w = (BadRequest (error_body not_array_msg), w2))
      \<and> writes w2 = writes w"
  proof (intro impI, elim conjE)
    assume f: "filename req = Some fname" "fname \<noteq> []"
      and e1: "ensureDirectory h (uploads_dir h) w = (None, w1)"
      and e2: "ensureDirectory h (exports_dir h) w1 = (None, w2)"
      and ex: "existsSync h (disk w2) (upload_in h fname)"
      and rd: "readFileSync h (disk w2) (upload_in h fname) = Inr xmlData"
      and ps: "parseStringPromise h xmlData = Inr rawJson"
    note eq = convert_reaches_try [OF f e1 e2 ex]
    from ensureDirectory_writes [OF e1] ensureDirectory_writes [OF e2]
    have wr: "writes w2 = writes w" by simp
    have a: "select_reduce (builtins h) (cleanJson rawJson) (path_or_default req) =
          Inr (Val JNull) \<longrightarrow>
        convert h req w =
          (BadRequest (error_body
             (''The specified JSON path '' @ [CHR 0x27] @ path_or_default req @ [CHR 0x27] @
              '' does not exist.'')), w2)"
      using convert_try_no_path [OF rd ps, of "path_or_default req" "export_out h fname"] eq
        msg [of "path_or_default req"] by auto
    have b: "select_reduce (builtins h) (cleanJson rawJson) (path_or_default req) = Inr d
          \<and> d \<noteq> Val JNull \<and> array_items (builtins h) d = None \<longrightarrow>
        convert h req w = (BadRequest (error_body not_array_msg), w2)"
    proof (intro impI, elim conjE)
      assume sl: "select_reduce (builtins h) (cleanJson rawJson) (path_or_default req) = Inr d"
        and dn: "d \<noteq> Val JNull" and na: "array_items (builtins h) d = None"
      from convert_try_not_array [OF rd ps sl dn na, of "export_out h fname"] eq
      show "convert h req w = (BadRequest (error_body not_array_msg), w2)" by simp
    qed
    from a b wr
    show "(select_reduce (builtins h) (cleanJson rawJson) (path_or_default req) =
            Inr (Val JNull) \<longrightarrow>
         convert h req w =
           (BadRequest (error_body
              (''The specified JSON path '' @ [CHR 0x27] @ path_or_default req @ [CHR 0x27] @
               '' does not exist.'')), w2))
      \<and> (select_reduce (builtins h) (cleanJson rawJson) (path_or_default req) = Inr d
            \<and> d \<noteq> Val JNull \<and> array_items (builtins h) d = None \<longrightarrow>
         convert h req w = (BadRequest (error_body not_array_msg), w2))
      \<and> writes w2 = writes w"
      by blast
  qed
  from j x show ?thesis by blast
qed

text \<open>
  C7, as the specification states it, fails in \<open>jsonToCsv\<close>. With no path, a file that
  holds \<^verbatim>\<open>null\<close> is not an array, yet the answer is the message about the path and not
  the message about the array. With the empty path on a file that holds an array, the
  selection would yield null, yet the handler takes the whole file and succeeds.
\<close>

theorem jsonToCsv_null_file_message:
  "JSON_parse (demo_host True) ''null'' = Inr JNull
   \<and> \<not> is_array JNull
   \<and> fst (jsonToCsv (demo_host True) \<lparr>filename = Some ''null.json'', jsonPath = None\<rparr> demo_world) =
       BadRequest (JPlain [(''error'',
          JStr (''The specified JSON path '' @ [CHR 0x27] @ ''undefined'' @ [CHR 0x27] @
                '' does not exist.''))])
   \<and> fst (jsonToCsv (demo_host True) \<lparr>filename = Some ''null.json'', jsonPath = None\<rparr> demo_world) \<noteq>
       BadRequest (JPlain [(''error'',
          JStr ''The selected JSON data is not an array and cannot be converted to CSV.'')])
   \<and> JSON_parse (demo_host True) ''[{\"a\":1}]'' = Inr (JArr [JPlain [(''a'', JNum 1)]])
   \<and> select_reduce demo_engine (JArr [JPlain [(''a'', JNum 1)]]) [] = Inr (Val JNull)
   \<and> fst (jsonToCsv (demo_host True) \<lparr>filename = Some ''list.json'', jsonPath = Some []\<rparr> demo_world) =
       Json (JPlain [(''message'', JStr ''JSON successfully converted to CSV and saved.''),
                     (''csvFilePath'', JStr ''/app/api/controllers/../../templates/csv/list.csv'')])"
  by (simp add: demo_host_def demo_world_def demo_json_def jsonToCsv_def jsonToCsv_try_def
      error_body_def no_path_msg_def render_path_def select_reduce_def reduce_step_def
      sel_step_def get_prop_def or_null_def demo_engine_def array_index_def digit_val_def
      flattenJson_def new_key_def obj_set_def empty_obj_def obj_value_def write_file_def)

theorem path_and_array_errors_witness:
  "readFileSync (demo_host True) (disk demo_world) (json_in (demo_host True) ''rows.json'') =
       Inr ''{\"rows\":[{\"a\":1,\"b\":{\"c\":2}}]}''
   \<and> JSON_parse (demo_host True) ''{\"rows\":[{\"a\":1,\"b\":{\"c\":2}}]}'' =
       Inr (JPlain [(''rows'', JArr [JPlain [(''a'', JNum 1), (''b'', JPlain [(''c'', JNum 2)])]])])
   \<and> select_reduce demo_engine
        (JPlain [(''rows'', JArr [JPlain [(''a'', JNum 1), (''b'', JPlain [(''c'', JNum 2)])]])])
        ''rows.x'' = Inr (Val JNull)
   \<and> jsonToCsv (demo_host True) \<lparr>filename = Some ''rows.json'', jsonPath = Some ''rows.x''\<rparr> demo_world =
       (BadRequest (error_body
          (''The specified JSON path '' @ [CHR 0x27] @ ''rows.x'' @ [CHR 0x27] @ '' does not exist.'')),
        demo_world)
   \<and> jsonToCsv (demo_host True) \<lparr>filename = Some ''rows.json'', jsonPath = None\<rparr> demo_world =
       (BadRequest (error_body not_array_msg), demo_world)
   \<and> ensureDirectory (demo_host True) (uploads_dir (demo_host True)) demo_world = (None, demo_world)
   \<and> ensureDirectory (demo_host True) (exports_dir (demo_host True)) demo_world = (None, demo_world)
   \<and> parseStringPromise (demo_host True) ''<root><item>1</item></root>'' =
       Inr (JPlain [(''root'', JPlain [(''item'', JArr [JStr ''1''])])])
   \<and> select_reduce demo_engine
        (cleanJson (JPlain [(''root'', JPlain [(''item'', JArr [JStr ''1''])])]))
        ''clearing.operation'' = Inr (Val JNull)
   \<and> convert (demo_host True) \<lparr>filename = Some ''item.xml'', jsonPath = None\<rparr> demo_world =
       (BadRequest (error_body
          (''The specified JSON path '' @ [CHR 0x27] @ ''clearing.operation'' @ [CHR 0x27] @
           '' does not exist.'')), demo_world)
   \<and> select_reduce demo_engine
        (cleanJson (JPlain [(''root'', JPlain [(''item'', JArr [JStr ''1''])])])) ''root'' =
       Inr (Val (JPlain [(''item'', JStr ''1'')]))
   \<and> convert (demo_host True) \<lparr>filename = Some ''item.xml'', jsonPath = Some ''root''\<rparr> demo_world =
       (BadRequest (error_body not_array_msg), demo_world)
   \<and> select_reduce demo_engine (JPlain [(''a'', JNum 1)]) ''constructor'' = Inr (Native 0)
   \<and> array_items demo_engine (Native 0) = None
   \<and> jsonToCsv (demo_host True) \<lparr>filename = Some ''one.json'', jsonPath = Some ''constructor''\<rparr>
        demo_world =
       (BadRequest (error_body not_array_msg), demo_world)"
  using
    path_and_array_errors [where req = "\<lparr>filename = Some ''rows.json'', jsonPath = Some ''rows.x''\<rparr>"
      and fname = "''rows.json''" and h = "demo_host True" and w = demo_world
      and content = "''{\"rows\":[{\"a\":1,\"b\":{\"c\":2}}]}''"
      and jsonData = "JPlain [(''rows'', JArr [JPlain [(''a'', JNum 1), (''b'', JPlain [(''c'', JNum 2)])]])]"
      and p = "''rows.x''" and d = "Val JNull" and ?w1.0 = demo_world and ?w2.0 = demo_world
      and xmlData = "[]" and rawJson = JNull]
    path_and_array_errors [where req = "\<lparr>filename = Some ''rows.json'', jsonPath = None\<rparr>"
      and fname = "''rows.json''" and h = "demo_host True" and w = demo_world
      and content = "''{\"rows\":[{\"a\":1,\"b\":{\"c\":2}}]}''"
      and jsonData = "JPlain [(''rows'', JArr [JPlain [(''a'', JNum 1), (''b'', JPlain [(''c'', JNum 2)])]])]"
      and p = "[]" and d = "Val JNull" and ?w1.0 = demo_world and ?w2.0 = demo_world
      and xmlData = "[]" and rawJson = JNull]
    path_and_array_errors [where req = "\<lparr>filename = Some ''item.xml'', jsonPath = None\<rparr>"
      and fname = "''item.xml''" and h = "demo_host True" and w = demo_world
      and content = "[]" and jsonData = JNull and p = "[]" and d = "Val JNull"
      and ?w1.0 = demo_world and ?w2.0 = demo_world
      and xmlData = "''<root><item>1</item></root>''"
      and rawJson = "JPlain [(''root'', JPlain [(''item'', JArr [JStr ''1''])])]"]
    path_and_array_errors [where req = "\<lparr>filename = Some ''item.xml'', jsonPath = Some ''root''\<rparr>"
      and fname = "''item.xml''" and h = "demo_host True" and w = demo_world
      and content = "[]" and jsonData = JNull and p = "[]"
      and d = "Val (JPlain [(''item'', JStr ''1'')])"
      and ?w1.0 = demo_world and ?w2.0 = demo_world
      and xmlData = "''<root><item>1</item></root>''"
      and rawJson = "JPlain [(''root'', JPlain [(''item'', JArr [JStr ''1''])])]"]
    path_and_array_errors [where req = "\<lparr>filename = Some ''one.json'', jsonPath = Some ''constructor''\<rparr>"
      and fname = "''one.json''" and h = "demo_host True" and w = demo_world
      and content = "''{\"a\":1}''" and jsonData = "JPlain [(''a'', JNum 1)]"
      and p = "''constructor''" and d = "Native 0" and ?w1.0 = demo_world and ?w2.0 = demo_world
      and xmlData = "[]" and rawJson = JNull]
  by (simp add: demo_host_def demo_world_def demo_json_def demo_xml_def ensureDirectory_def
      select_reduce_def reduce_step_def sel_step_def get_prop_def or_null_def demo_engine_def
      array_index_def digit_val_def obj_set_def empty_obj_def obj_value_def placed_before_def)

text \<open>What a handler does to the list of writes.\<close>

lemma write_file_effect:
  "write_file h p t w = (e, w') \<Longrightarrow>
   writes w' = writes w @ [(p, t)] \<and> e = fst (writeFileSync h (disk w) p t)"
  by (auto simp: write_file_def split: prod.splits)

lemma flatten_all_rows:
  "flatten_all items = Inr rows \<Longrightarrow>
   list_all2 (\<lambda>item row. \<exists>r. flattenJson item [] empty_obj = Inr r \<and> row = obj_value r) items rows"
  by (induction items arbitrary: rows) (auto split: sum.splits)

lemma response_set:
  "obj_value (obj_set (obj_set (ObjectProto, [(''message'', m), (''data'', d)]) ''message'' m')
      ''csvFilePath'' c) =
     JPlain [(''message'', m'), (''data'', d), (''csvFilePath'', c)]"
  by (simp add: obj_set_def obj_value_def placed_before_def array_index_def digit_val_def)

lemma convert_try_success:
  assumes "readFileSync h (disk w) inp = Inr xmlData" and "parseStringPromise h xmlData = Inr rawJson"
    and "select_reduce (builtins h) (cleanJson rawJson) q = Inr d"
    and "array_items (builtins h) d = Some items" and "flatten_all items = Inr rows"
    and "Parser_parse h rows = Inr csv" and "write_file h out csv w = (None, w')"
  shows "convert_try h q inp out w =
      (Json (JPlain [(''message'', JStr ''XML successfully converted to JSON and CSV.''),
                   (''data'', cleanJson rawJson), (''csvFilePath'', JStr out)]), w')"
  using assms array_items_truthy [OF assms(4)] by (simp add: convert_try_def response_set)

lemma convert_try_effect:
  "convert_try h q inp out w = (r, w') \<Longrightarrow>
   writes w' = writes w \<and> \<not> is_json r \<or>
   (\<exists>xmlData rawJson d items rows csv.
      readFileSync h (disk w) inp = Inr xmlData \<and> parseStringPromise h xmlData = Inr rawJson
      \<and> select_reduce (builtins h) (cleanJson rawJson) q = Inr d
      \<and> array_items (builtins h) d = Some items
      \<and> flatten_all items = Inr rows
      \<and> Parser_parse h rows = Inr csv \<and> writes w' = writes w @ [(out, csv)]
      \<and> (is_json r \<and> fst (writeFileSync h (disk w) out csv) = None
          \<or> (\<exists>m. r = ServerError (failure_body ''Failed to convert XML to JSON/CSV.'' m)
                \<and> fst (writeFileSync h (disk w) out csv) = Some m)))"
  unfolding convert_try_def Let_def
  by (auto split: sum.splits if_splits prod.splits option.splits
      dest!: write_file_effect)

lemma jsonToCsv_try_effect:
  "jsonToCsv_try h q inp out w = (r, w') \<Longrightarrow>
   writes w' = writes w \<and> \<not> is_json r \<or>
   (\<exists>text jsonData d items rows csv.
      readFileSync h (disk w) inp = Inr text \<and> JSON_parse h text = Inr jsonData
      \<and> (case q of
            None \<Rightarrow> Inr (Val jsonData)
          | Some p \<Rightarrow> if p \<noteq> [] then select_reduce (builtins h) jsonData p
                      else Inr (Val jsonData)) = Inr d
      \<and> array_items (builtins h) d = Some items
      \<and> flatten_all items = Inr rows
      \<and> Parser_parse h rows = Inr csv \<and> writes w' = writes w @ [(out, csv)]
      \<and> (is_json r \<and> fst (writeFileSync h (disk w) out csv) = None
          \<or> (\<exists>m. r = ServerError (failure_body ''Failed to convert JSON to CSV.'' m)
                \<and> fst (writeFileSync h (disk w) out csv) = Some m)))"
  unfolding jsonToCsv_try_def Let_def
  by (auto split: sum.splits if_splits prod.splits option.splits
      dest!: write_file_effect)

lemma xmlToJson_try_effect:
  "xmlToJson_try h inp out w = (r, w') \<Longrightarrow>
   writes w' = writes w \<and> \<not> is_json r \<or>
   (\<exists>xmlData rawJson.
      readFileSync h (disk w) inp = Inr xmlData \<and> parseStringPromise h xmlData = Inr rawJson
      \<and> writes w' = writes w @ [(out, JSON_stringify h (cleanJson rawJson))]
      \<and> (is_json r \<and> fst (writeFileSync h (disk w) out (JSON_stringify h (cleanJson rawJson))) = None
          \<or> (\<exists>m. r = ServerError (failure_body ''Failed to convert XML to JSON.'' m)
                \<and> fst (writeFileSync h (disk w) out (JSON_stringify h (cleanJson rawJson))) =
                    Some m)))"
  unfolding xmlToJson_try_def Let_def
  by (auto split: sum.splits if_splits prod.splits option.splits dest!: write_file_effect)

text \<open>Before the try block a handler answers at once or goes on with the same list of writes.\<close>

lemma xmlToJson_cases:
  assumes "xmlToJson h req w = (r, w')"
  shows "writes w' = writes w \<and> \<not> is_json r \<or>
   (\<exists>fname w2. filename req = Some fname \<and> fname \<noteq> [] \<and> writes w2 = writes w
      \<and> existsSync h (disk w2) (xml_in h fname)
      \<and> xmlToJson_try h (xml_in h fname) (json_out h fname) w2 = (r, w'))"
proof (cases "filename req")
  case None
  with assms show ?thesis by (auto simp: xmlToJson_def)
next
  case (Some fname)
  show ?thesis
  proof (cases "fname = []")
    case True
    with Some assms show ?thesis by (auto simp: xmlToJson_def)
  next
    case False
    obtain e1 w1 where e1: "ensureDirectory h (xml_dir h) w = (e1, w1)" by force
    obtain e2 w2 where e2: "ensureDirectory h (json_dir h) w1 = (e2, w2)" by force
    from ensureDirectory_writes [OF e1] ensureDirectory_writes [OF e2]
    have wr: "writes w1 = writes w" "writes w2 = writes w" by simp_all
    show ?thesis
    proof (cases e1)
      case (Some m)
      with \<open>filename req = Some fname\<close> False e1 assms wr show ?thesis
        by (auto simp: xmlToJson_def)
    next
      case None
      note n1 = this
      show ?thesis
      proof (cases e2)
        case (Some m)
        with \<open>filename req = Some fname\<close> False e1 e2 n1 assms wr show ?thesis
          by (auto simp: xmlToJson_def)
      next
        case None
        show ?thesis
        proof (cases "existsSync h (disk w2) (xml_in h fname)")
          case True
          with \<open>filename req = Some fname\<close> False e1 e2 n1 None assms
          have "xmlToJson_try h (xml_in h fname) (json_out h fname) w2 = (r, w')"
            by (simp add: xmlToJson_def)
          with \<open>filename req = Some fname\<close> False True wr show ?thesis by blast
        next
          case nf: False
          with \<open>filename req = Some fname\<close> False e1 e2 n1 None assms wr show ?thesis
            by (auto simp: xmlToJson_def)
        qed
      qed
    qed
  qed
qed

lemma jsonToCsv_cases:
  assumes "jsonToCsv h req w = (r, w')"
  shows "writes w' = writes w \<and> \<not> is_json r \<or>
   (\<exists>fname. filename req = Some fname \<and> fname \<noteq> []
      \<and> existsSync h (disk w) (json_in h fname)
      \<and> jsonToCsv_try h (jsonPath req) (json_in h fname) (csv_out h fname) w = (r, w'))"
proof (cases "filename req")
  case None
  with assms show ?thesis by (auto simp: jsonToCsv_def)
next
  case (Some fname)
  show ?thesis
  proof (cases "fname \<noteq> [] \<and> existsSync h (disk w) (json_in h fname)")
    case True
    with Some assms
    have "jsonToCsv_try h (jsonPath req) (json_in h fname) (csv_out h fname) w = (r, w')"
      by (simp add: jsonToCsv_def)
    with Some True show ?thesis by blast
  next
    case False
    with Some assms show ?thesis by (auto simp: jsonToCsv_def split: if_splits)
  qed
qed

lemma convert_cases:
  assumes "convert h req w = (r, w')"
  shows "writes w' = writes w \<and> \<not> is_json r \<or>
   (\<exists>fname w2. filename req = Some fname \<and> fname \<noteq> [] \<and> writes w2 = writes w
      \<and> existsSync h (disk w2) (upload_in h fname)
      \<and> convert_try h (path_or_default req) (upload_in h fname) (export_out h fname) w2 = (r, w'))"
proof (cases "filename req")
  case None
  with assms show ?thesis by (auto simp: convert_def)
next
  case (Some fname)
  show ?thesis
  proof (cases "fname = []")
    case True
    with Some assms show ?thesis by (auto simp: convert_def)
  next
    case False
    obtain e1 w1 where e1: "ensureDirectory h (uploads_dir h) w = (e1, w1)" by force
    obtain e2 w2 where e2: "ensureDirectory h (exports_dir h) w1 = (e2, w2)" by force
    from ensureDirectory_writes [OF e1] ensureDirectory_writes [OF e2]
    have wr: "writes w1 = writes w" "writes w2 = writes w" by simp_all
    show ?thesis
    proof (cases e1)
      case (Some m)
      with \<open>filename req = Some fname\<close> False e1 assms wr show ?thesis
        by (auto simp: convert_def)
    next
      case None
      note n1 = this
      show ?thesis
      proof (cases e2)
        case (Some m)
        with \<open>filename req = Some fname\<close> False e1 e2 n1 assms wr show ?thesis
          by (auto simp: convert_def)
      next
        case None
        show ?thesis
        proof (cases "existsSync h (disk w2) (upload_in h fname)")
          case True
          with \<open>filename req = Some fname\<close> False e1 e2 n1 None assms
          have "convert_try h (path_or_default req) (upload_in h fname) (export_out h fname) w2 =
              (r, w')"
            by (simp add: convert_def)
          with \<open>filename req = Some fname\<close> False True wr show ?thesis by blast
        next
          case nf: False
          with \<open>filename req = Some fname\<close> False e1 e2 n1 None assms wr show ?thesis
            by (auto simp: convert_def)
        qed
      qed
    qed
  qed
qed

text \<open>Runs of the handlers on the small host.\<close>

lemma demo_run_absent_path: "jsonToCsv (demo_host True) \<lparr>filename = Some ''rows.json'', jsonPath = Some ''rows.x''\<rparr> demo_world =
     (BadRequest (error_body (no_path_msg (Some ''rows.x''))), demo_world)"
  by (simp add: reduce_step_def get_prop_def or_null_def demo_engine_def empty_obj_def
      obj_value_def
      demo_host_def demo_world_def demo_json_def jsonToCsv_def
      jsonToCsv_try_def select_reduce_def sel_step_def array_index_def digit_val_def)

lemma demo_run_failed_write: "jsonToCsv (demo_host False) \<lparr>filename = Some ''list.json'', jsonPath = None\<rparr> demo_world =
    (ServerError (failure_body ''Failed to convert JSON to CSV.'' ''EACCES''),
     \<lparr>disk = disk demo_world,
      writes = [(''/app/api/controllers/../../templates/csv/list.csv'', ''csv'')]\<rparr>)"
  by (simp add: reduce_step_def get_prop_def or_null_def demo_engine_def empty_obj_def
      obj_value_def
      demo_host_def demo_world_def demo_json_def jsonToCsv_def
      jsonToCsv_try_def write_file_def flattenJson_def new_key_def obj_set_def)

lemma demo_run_xmlToJson: "xmlToJson (demo_host True) \<lparr>filename = Some ''item.xml'', jsonPath = None\<rparr> demo_world =
    (Json (JPlain [(''message'', JStr ''XML successfully converted to JSON and saved.''),
                 (''jsonFilePath'', JStr ''/app/api/controllers/../../templates/json/item.json''),
                 (''data'', JPlain [(''root'', JPlain [(''item'', JStr ''1'')])])]),
     \<lparr>disk = (''/app/api/controllers/../../templates/json/item.json'', ''{}'') # disk demo_world,
      writes = [(''/app/api/controllers/../../templates/json/item.json'', ''{}'')]\<rparr>)"
  by (simp add: reduce_step_def get_prop_def or_null_def demo_engine_def empty_obj_def
      obj_value_def
      demo_host_def demo_world_def demo_xml_def xmlToJson_def xmlToJson_try_def
      ensureDirectory_def write_file_def obj_set_def placed_before_def array_index_def digit_val_def)

lemma demo_run_convert: "convert (demo_host True) \<lparr>filename = Some ''ops.xml'', jsonPath = None\<rparr> demo_world =
    (Json (JPlain [(''message'', JStr ''XML successfully converted to JSON and CSV.''),
                 (''data'', JPlain [(''clearing'', JPlain [(''operation'',
                    JArr [JPlain [(''id'', JStr ''1'')], JPlain [(''id'', JStr ''2'')]])])]),
                 (''csvFilePath'', JStr ''/app/api/controllers/../../exports/ops.csv'')]),
     \<lparr>disk = (''/app/api/controllers/../../exports/ops.csv'', ''csv'') # disk demo_world,
      writes = [(''/app/api/controllers/../../exports/ops.csv'', ''csv'')]\<rparr>)"
  by (simp add: reduce_step_def get_prop_def or_null_def demo_engine_def empty_obj_def
      obj_value_def
      demo_host_def demo_world_def demo_xml_def convert_def convert_try_def
      ensureDirectory_def write_file_def select_reduce_def sel_step_def
      flattenJson_def new_key_def obj_set_def placed_before_def array_index_def digit_val_def)

text \<open>
  A path can select an object of the engine. \<^verbatim>\<open>rows.__proto__\<close> selects
  \<^verbatim>\<open>Array.prototype\<close>, which is an array without elements: the handler goes on, and the
  serializer refuses the empty list of rows.
\<close>

lemma demo_run_array_prototype:
  "select_reduce demo_engine
     (JPlain [(''rows'', JArr [JPlain [(''a'', JNum 1), (''b'', JPlain [(''c'', JNum 2)])]])])
     ''rows.__proto__'' = Inr (Native 7)"
  "jsonToCsv (demo_host True) \<lparr>filename = Some ''rows.json'', jsonPath = Some ''rows.__proto__''\<rparr>
     demo_world =
   (ServerError (failure_body ''Failed to convert JSON to CSV.'' ''Data should not be empty''),
    demo_world)"
  by (simp_all add: reduce_step_def get_prop_def or_null_def demo_engine_def demo_host_def
      demo_world_def
      demo_json_def jsonToCsv_def jsonToCsv_try_def select_reduce_def sel_step_def
      array_index_def digit_val_def)

text \<open>
  A path can also reach an accessor that throws: \<^verbatim>\<open>constructor.caller\<close> reads the
  \<^verbatim>\<open>caller\<close> of the function \<^verbatim>\<open>Object\<close>. The exception is caught in the handler.
\<close>

lemma demo_run_thrown_read:
  "select_reduce demo_engine (JPlain [(''a'', JNum 1)]) ''constructor.caller'' =
     Inl ''caller may not be accessed on this function''"
  "jsonToCsv (demo_host True) \<lparr>filename = Some ''one.json'', jsonPath = Some ''constructor.caller''\<rparr>
     demo_world =
   (ServerError (failure_body ''Failed to convert JSON to CSV.''
      ''caller may not be accessed on this function''), demo_world)"
  by (simp_all add: reduce_step_def get_prop_def or_null_def demo_engine_def demo_host_def
      demo_world_def demo_json_def jsonToCsv_def jsonToCsv_try_def select_reduce_def
      sel_step_def array_index_def digit_val_def)

text \<open>
  C8. Without a \<open>jsonPath\<close> in the request, \<open>convert\<close> selects with the path
  \<^verbatim>\<open>clearing.operation\<close>. When every step succeeds it parses the XML, cleans the result,
  selects, flattens each element, serializes the rows and writes the CSV text, and it
  answers with the cleaned value and the CSV path. Whatever happens, the only file it ever
  writes is the CSV output, with text the serializer returned: no JSON file is written.
\<close>

theorem convert_default_path_pipeline:
  "convert h (req\<lparr>jsonPath := None\<rparr>) w = convert h (req\<lparr>jsonPath := Some ''clearing.operation''\<rparr>) w
   \<and> (filename req = Some fname \<and> fname \<noteq> []
      \<and> ensureDirectory h (uploads_dir h) w = (None, w1)
      \<and> ensureDirectory h (exports_dir h) w1 = (None, w2)
      \<and> existsSync h (disk w2) (upload_in h fname)
      \<and> readFileSync h (disk w2) (upload_in h fname) = Inr xmlData
      \<and> parseStringPromise h xmlData = Inr rawJson
      \<and> select_reduce (builtins h) (cleanJson rawJson) (path_or_default req) = Inr d
      \<and> array_items (builtins h) d = Some items
      \<and> flatten_all items = Inr rows
      \<and> Parser_parse h rows = Inr csv
      \<and> write_file h (export_out h fname) csv w2 = (None, w3) \<longrightarrow>
      convert h req w =
        (Json (JPlain [(''message'', JStr ''XML successfully converted to JSON and CSV.''),
                     (''data'', cleanJson rawJson),
                     (''csvFilePath'', JStr (export_out h fname))]), w3)
      \<and> writes w3 = writes w @ [(export_out h fname, csv)]
      \<and> list_all2 (\<lambda>item row. \<exists>r. flattenJson item [] empty_obj = Inr r \<and> row = obj_value r) items rows)
   \<and> (writes (snd (convert h req w)) = writes w
      \<or> (\<exists>fname rows csv. filename req = Some fname \<and> Parser_parse h rows = Inr csv
            \<and> writes (snd (convert h req w)) = writes w @ [(export_out h fname, csv)]))"
proof -
  have dflt: "convert h (req\<lparr>jsonPath := None\<rparr>) w =
      convert h (req\<lparr>jsonPath := Some ''clearing.operation''\<rparr>) w"
    by (simp add: convert_def)
  have pipe: "filename req = Some fname \<and> fname \<noteq> []
      \<and> ensureDirectory h (uploads_dir h) w = (None, w1)
      \<and> ensureDirectory h (exports_dir h) w1 = (None, w2)
      \<and> existsSync h (disk w2) (upload_in h fname)
      \<and> readFileSync h (disk w2) (upload_in h fname) = Inr xmlData
      \<and> parseStringPromise h xmlData = Inr rawJson
      \<and> select_reduce (builtins h) (cleanJson rawJson) (path_or_default req) = Inr d
      \<and> array_items (builtins h) d = Some items
      \<and> flatten_all items = Inr rows
      \<and> Parser_parse h rows = Inr csv
      \<and> write_file h (export_out h fname) csv w2 = (None, w3) \<longrightarrow>
      convert h req w =
        (Json (JPlain [(''message'', JStr ''XML successfully converted to JSON and CSV.''),
                     (''data'', cleanJson rawJson),
                     (''csvFilePath'', JStr (export_out h fname))]), w3)
      \<and> writes w3 = writes w @ [(export_out h fname, csv)]
      \<and> list_all2 (\<lambda>item row. \<exists>r. flattenJson item [] empty_obj = Inr r \<and> row = obj_value r) items rows"
  proof (intro impI, elim conjE)
    assume f: "filename req = Some fname" "fname \<noteq> []"
      and e1: "ensureDirectory h (uploads_dir h) w = (None, w1)"
      and e2: "ensureDirectory h (exports_dir h) w1 = (None, w2)"
      and ex: "existsSync h (disk w2) (upload_in h fname)"
      and rd: "readFileSync h (disk w2) (upload_in h fname) = Inr xmlData"
      and ps: "parseStringPromise h xmlData = Inr rawJson"
      and sel: "select_reduce (builtins h) (cleanJson rawJson) (path_or_default req) = Inr d"
      and arr: "array_items (builtins h) d = Some items"
      and fl: "flatten_all items = Inr rows"
      and cs: "Parser_parse h rows = Inr csv"
      and wf: "write_file h (export_out h fname) csv w2 = (None, w3)"
    from ensureDirectory_writes [OF e1] ensureDirectory_writes [OF e2]
    have wr: "writes w2 = writes w" by simp
    from write_file_effect [OF wf] wr
    have w3: "writes w3 = writes w @ [(export_out h fname, csv)]" by simp
    have "convert h req w =
        convert_try h (path_or_default req) (upload_in h fname) (export_out h fname) w2"
      by (rule convert_reaches_try [OF f e1 e2 ex])
    also have "\<dots> =
        (Json (JPlain [(''message'', JStr ''XML successfully converted to JSON and CSV.''),
                     (''data'', cleanJson rawJson),
                     (''csvFilePath'', JStr (export_out h fname))]), w3)"
      by (rule convert_try_success [OF rd ps sel arr fl cs wf])
    finally show "convert h req w =
        (Json (JPlain [(''message'', JStr ''XML successfully converted to JSON and CSV.''),
                     (''data'', cleanJson rawJson),
                     (''csvFilePath'', JStr (export_out h fname))]), w3)
      \<and> writes w3 = writes w @ [(export_out h fname, csv)]
      \<and> list_all2 (\<lambda>item row. \<exists>r. flattenJson item [] empty_obj = Inr r \<and> row = obj_value r) items rows"
      using w3 flatten_all_rows [OF fl] by simp
  qed
  have only: "writes (snd (convert h req w)) = writes w
      \<or> (\<exists>fname rows csv. filename req = Some fname \<and> Parser_parse h rows = Inr csv
            \<and> writes (snd (convert h req w)) = writes w @ [(export_out h fname, csv)])"
  proof -
    obtain r w' where eq: "convert h req w = (r, w')" by force
    from convert_cases [OF eq] show ?thesis
    proof
      assume "writes w' = writes w \<and> \<not> is_json r"
      with eq show ?thesis by simp
    next
      assume "\<exists>fname w2. filename req = Some fname \<and> fname \<noteq> [] \<and> writes w2 = writes w
        \<and> existsSync h (disk w2) (upload_in h fname)
        \<and> convert_try h (path_or_default req) (upload_in h fname) (export_out h fname) w2 = (r, w')"
      then obtain fname w2 where f: "filename req = Some fname" and wr: "writes w2 = writes w"
        and t: "convert_try h (path_or_default req) (upload_in h fname) (export_out h fname) w2 =
          (r, w')"
        by blast
      from convert_try_effect [OF t] wr f eq show ?thesis by auto
    qed
  qed
  from dflt pipe only show ?thesis by blast
qed

theorem convert_default_path_pipeline_witness:
  "parseStringPromise (demo_host True)
      ''<clearing><operation><id>1</id></operation><operation><id>2</id></operation></clearing>'' =
     Inr (JPlain [(''clearing'', JPlain [(''operation'',
            JArr [JPlain [(''id'', JArr [JStr ''1''])], JPlain [(''id'', JArr [JStr ''2''])]])])])
   \<and> select_reduce demo_engine
        (cleanJson (JPlain [(''clearing'', JPlain [(''operation'',
           JArr [JPlain [(''id'', JArr [JStr ''1''])], JPlain [(''id'', JArr [JStr ''2''])]])])]))
        ''clearing.operation'' =
       Inr (Val (JArr [JPlain [(''id'', JStr ''1'')], JPlain [(''id'', JStr ''2'')]]))
   \<and> array_items demo_engine (Val (JArr [JPlain [(''id'', JStr ''1'')], JPlain [(''id'', JStr ''2'')]])) =
       Some [JPlain [(''id'', JStr ''1'')], JPlain [(''id'', JStr ''2'')]]
   \<and> flatten_all [JPlain [(''id'', JStr ''1'')], JPlain [(''id'', JStr ''2'')]] =
       Inr [JPlain [(''id'', JStr ''1'')], JPlain [(''id'', JStr ''2'')]]
   \<and> fst (convert (demo_host True) \<lparr>filename = Some ''ops.xml'', jsonPath = None\<rparr> demo_world) =
       Json (JPlain [(''message'', JStr ''XML successfully converted to JSON and CSV.''),
                   (''data'', JPlain [(''clearing'', JPlain [(''operation'',
                      JArr [JPlain [(''id'', JStr ''1'')], JPlain [(''id'', JStr ''2'')]])])]),
                   (''csvFilePath'', JStr ''/app/api/controllers/../../exports/ops.csv'')])
   \<and> writes (snd (convert (demo_host True) \<lparr>filename = Some ''ops.xml'', jsonPath = None\<rparr>
        demo_world)) =
       [(''/app/api/controllers/../../exports/ops.csv'', ''csv'')]"
  using convert_default_path_pipeline
    [where h = "demo_host True" and req = "\<lparr>filename = Some ''ops.xml'', jsonPath = None\<rparr>"
      and w = demo_world and fname = "''ops.xml''" and ?w1.0 = demo_world and ?w2.0 = demo_world
      and xmlData = "''<clearing><operation><id>1</id></operation><operation><id>2</id></operation></clearing>''"
      and rawJson = "JPlain [(''clearing'', JPlain [(''operation'',
            JArr [JPlain [(''id'', JArr [JStr ''1''])], JPlain [(''id'', JArr [JStr ''2''])]])])]"
      and d = "Val (JArr [JPlain [(''id'', JStr ''1'')], JPlain [(''id'', JStr ''2'')]])"
      and items = "[JPlain [(''id'', JStr ''1'')], JPlain [(''id'', JStr ''2'')]]"
      and rows = "[JPlain [(''id'', JStr ''1'')], JPlain [(''id'', JStr ''2'')]]"
      and csv = "''csv''"
      and ?w3.0 = "\<lparr>disk = (''/app/api/controllers/../../exports/ops.csv'', ''csv'') # disk demo_world,
                     writes = [(''/app/api/controllers/../../exports/ops.csv'', ''csv'')]\<rparr>",
      THEN conjunct2, THEN conjunct1]
  by (simp add: reduce_step_def get_prop_def or_null_def demo_engine_def empty_obj_def
      obj_value_def
      demo_host_def demo_world_def demo_xml_def ensureDirectory_def write_file_def
      select_reduce_def sel_step_def obj_set_def placed_before_def array_index_def digit_val_def
      flattenJson_def new_key_def)

text \<open>
  C9, as the specification states it, fails: the write itself can fail. The handler then
  answers with the 500 response, and the write was attempted.
\<close>

theorem jsonToCsv_error_after_write:
  "fst (jsonToCsv (demo_host False) \<lparr>filename = Some ''list.json'', jsonPath = None\<rparr> demo_world) =
     ServerError (JPlain [(''error'', JStr ''Failed to convert JSON to CSV.''),
                        (''details'', JStr ''EACCES'')])
   \<and> writes demo_world = []
   \<and> writes (snd (jsonToCsv (demo_host False) \<lparr>filename = Some ''list.json'', jsonPath = None\<rparr>
        demo_world)) =
       [(''/app/api/controllers/../../templates/csv/list.csv'', ''csv'')]"
  by (simp add: reduce_step_def get_prop_def or_null_def demo_engine_def empty_obj_def
      obj_value_def
      demo_host_def demo_world_def demo_json_def jsonToCsv_def jsonToCsv_try_def
      write_file_def failure_body_def flattenJson_def new_key_def obj_set_def)

text \<open>
  C9, amended. For each handler and every request, either no write was attempted and the
  answer is not the success response, or exactly one write was attempted, to the output
  path, after reading, parsing, cleaning, selection, flattening and serialization had all
  succeeded; the answer then is the success response when the write succeeded, and the 500
  response carrying the message of the write when it failed. In particular a 400 or a 404
  response, and an exception outside the \<^verbatim>\<open>try\<close> block, come with no write.
\<close>

theorem write_only_after_success:
  "(xmlToJson (h :: 'fs host) req w = (r, w') \<longrightarrow>
      writes w' = writes w \<and> \<not> is_json r
      \<or> (\<exists>fname (w2 :: 'fs world) xmlData rawJson.
            filename req = Some fname \<and> writes w2 = writes w
            \<and> readFileSync h (disk w2) (xml_in h fname) = Inr xmlData
            \<and> parseStringPromise h xmlData = Inr rawJson
            \<and> writes w' = writes w @ [(json_out h fname, JSON_stringify h (cleanJson rawJson))]
            \<and> (is_json r
                  \<and> fst (writeFileSync h (disk w2) (json_out h fname)
                          (JSON_stringify h (cleanJson rawJson))) = None
                \<or> (\<exists>m. r = ServerError (failure_body ''Failed to convert XML to JSON.'' m)
                      \<and> fst (writeFileSync h (disk w2) (json_out h fname)
                              (JSON_stringify h (cleanJson rawJson))) = Some m))))
   \<and> (jsonToCsv h req w = (r, w') \<longrightarrow>
      writes w' = writes w \<and> \<not> is_json r
      \<or> (\<exists>fname text jsonData d items rows csv.
            filename req = Some fname
            \<and> readFileSync h (disk w) (json_in h fname) = Inr text
            \<and> JSON_parse h text = Inr jsonData
            \<and> (case jsonPath req of
                  None \<Rightarrow> Inr (Val jsonData)
                | Some p \<Rightarrow> if p \<noteq> [] then select_reduce (builtins h) jsonData p
                            else Inr (Val jsonData)) = Inr d
            \<and> array_items (builtins h) d = Some items
            \<and> flatten_all items = Inr rows
            \<and> Parser_parse h rows = Inr csv
            \<and> writes w' = writes w @ [(csv_out h fname, csv)]
            \<and> (is_json r \<and> fst (writeFileSync h (disk w) (csv_out h fname) csv) = None
                \<or> (\<exists>m. r = ServerError (failure_body ''Failed to convert JSON to CSV.'' m)
                      \<and> fst (writeFileSync h (disk w) (csv_out h fname) csv) = Some m))))
   \<and> (convert h req w = (r, w') \<longrightarrow>
      writes w' = writes w \<and> \<not> is_json r
      \<or> (\<exists>fname (w2 :: 'fs world) xmlData rawJson d items rows csv.
            filename req = Some fname \<and> writes w2 = writes w
            \<and> readFileSync h (disk w2) (upload_in h fname) = Inr xmlData
            \<and> parseStringPromise h xmlData = Inr rawJson
            \<and> select_reduce (builtins h) (cleanJson rawJson) (path_or_default req) = Inr d
            \<and> array_items (builtins h) d = Some items
            \<and> flatten_all items = Inr rows
            \<and> Parser_parse h rows = Inr csv
            \<and> writes w' = writes w @ [(export_out h fname, csv)]
            \<and> (is_json r \<and> fst (writeFileSync h (disk w2) (export_out h fname) csv) = None
                \<or> (\<exists>m. r = ServerError (failure_body ''Failed to convert XML to JSON/CSV.'' m)
                      \<and> fst (writeFileSync h (disk w2) (export_out h fname) csv) = Some m))))
   \<and> ((xmlToJson h req w = (r, w') \<or> jsonToCsv h req w = (r, w') \<or> convert h req w = (r, w'))
        \<and> (r = BadRequest b \<or> r = NotFound b \<or> r = Uncaught u) \<longrightarrow>
      writes w' = writes w)"
proof -
  have x: "xmlToJson h req w = (r, w') \<longrightarrow>
      writes w' = writes w \<and> \<not> is_json r
      \<or> (\<exists>fname (w2 :: 'fs world) xmlData rawJson.
            filename req = Some fname \<and> writes w2 = writes w
            \<and> readFileSync h (disk w2) (xml_in h fname) = Inr xmlData
            \<and> parseStringPromise h xmlData = Inr rawJson
            \<and> writes w' = writes w @ [(json_out h fname, JSON_stringify h (cleanJson rawJson))]
            \<and> (is_json r
                  \<and> fst (writeFileSync h (disk w2) (json_out h fname)
                          (JSON_stringify h (cleanJson rawJson))) = None
                \<or> (\<exists>m. r = ServerError (failure_body ''Failed to convert XML to JSON.'' m)
                      \<and> fst (writeFileSync h (disk w2) (json_out h fname)
                              (JSON_stringify h (cleanJson rawJson))) = Some m)))"
  proof
    assume eq: "xmlToJson h req w = (r, w')"
    from xmlToJson_cases [OF eq] show "writes w' = writes w \<and> \<not> is_json r
      \<or> (\<exists>fname (w2 :: 'fs world) xmlData rawJson.
            filename req = Some fname \<and> writes w2 = writes w
            \<and> readFileSync h (disk w2) (xml_in h fname) = Inr xmlData
            \<and> parseStringPromise h xmlData = Inr rawJson
            \<and> writes w' = writes w @ [(json_out h fname, JSON_stringify h (cleanJson rawJson))]
            \<and> (is_json r
                  \<and> fst (writeFileSync h (disk w2) (json_out h fname)
                          (JSON_stringify h (cleanJson rawJson))) = None
                \<or> (\<exists>m. r = ServerError (failure_body ''Failed to convert XML to JSON.'' m)
                      \<and> fst (writeFileSync h (disk w2) (json_out h fname)
                              (JSON_stringify h (cleanJson rawJson))) = Some m)))"
    proof
      assume "writes w' = writes w \<and> \<not> is_json r"
      then show ?thesis by blast
    next
      assume "\<exists>fname w2. filename req = Some fname \<and> fname \<noteq> [] \<and> writes w2 = writes w
        \<and> existsSync h (disk w2) (xml_in h fname)
        \<and> xmlToJson_try h (xml_in h fname) (json_out h fname) w2 = (r, w')"
      then obtain fname w2 where f: "filename req = Some fname" and wr: "writes w2 = writes w"
        and t: "xmlToJson_try h (xml_in h fname) (json_out h fname) w2 = (r, w')"
        by blast
      from xmlToJson_try_effect [OF t] show ?thesis
      proof
        assume "writes w' = writes w2 \<and> \<not> is_json r"
        with wr show ?thesis by simp
      next
        assume "\<exists>xmlData rawJson.
          readFileSync h (disk w2) (xml_in h fname) = Inr xmlData
          \<and> parseStringPromise h xmlData = Inr rawJson
          \<and> writes w' = writes w2 @ [(json_out h fname, JSON_stringify h (cleanJson rawJson))]
          \<and> (is_json r
                \<and> fst (writeFileSync h (disk w2) (json_out h fname)
                        (JSON_stringify h (cleanJson rawJson))) = None
              \<or> (\<exists>m. r = ServerError (failure_body ''Failed to convert XML to JSON.'' m)
                    \<and> fst (writeFileSync h (disk w2) (json_out h fname)
                            (JSON_stringify h (cleanJson rawJson))) = Some m))"
        then obtain xmlData rawJson where
          "readFileSync h (disk w2) (xml_in h fname) = Inr xmlData"
          "parseStringPromise h xmlData = Inr rawJson"
          "writes w' = writes w2 @ [(json_out h fname, JSON_stringify h (cleanJson rawJson))]"
          "is_json r
             \<and> fst (writeFileSync h (disk w2) (json_out h fname)
                     (JSON_stringify h (cleanJson rawJson))) = None
           \<or> (\<exists>m. r = ServerError (failure_body ''Failed to convert XML to JSON.'' m)
                 \<and> fst (writeFileSync h (disk w2) (json_out h fname)
                         (JSON_stringify h (cleanJson rawJson))) = Some m)"
          by blast
        with f wr have "filename req = Some fname \<and> writes w2 = writes w
            \<and> readFileSync h (disk w2) (xml_in h fname) = Inr xmlData
            \<and> parseStringPromise h xmlData = Inr rawJson
            \<and> writes w' = writes w @ [(json_out h fname, JSON_stringify h (cleanJson rawJson))]
            \<and> (is_json r
                  \<and> fst (writeFileSync h (disk w2) (json_out h fname)
                          (JSON_stringify h (cleanJson rawJson))) = None
                \<or> (\<exists>m. r = ServerError (failure_body ''Failed to convert XML to JSON.'' m)
                      \<and> fst (writeFileSync h (disk w2) (json_out h fname)
                              (JSON_stringify h (cleanJson rawJson))) = Some m))"
          by simp
        then show ?thesis
          apply -
          apply (rule disjI2)
          apply (rule exI [of _ fname])
          apply (rule exI [of _ w2])
          apply (rule exI [of _ xmlData])
          apply (rule exI [of _ rawJson])
          apply assumption
          done
      qed
    qed
  qed
  have j: "jsonToCsv h req w = (r, w') \<longrightarrow>
      writes w' = writes w \<and> \<not> is_json r
      \<or> (\<exists>fname text jsonData d items rows csv.
            filename req = Some fname
            \<and> readFileSync h (disk w) (json_in h fname) = Inr text
            \<and> JSON_parse h text = Inr jsonData
            \<and> (case jsonPath req of
                  None \<Rightarrow> Inr (Val jsonData)
                | Some p \<Rightarrow> if p \<noteq> [] then select_reduce (builtins h) jsonData p
                            else Inr (Val jsonData)) = Inr d
            \<and> array_items (builtins h) d = Some items
            \<and> flatten_all items = Inr rows
            \<and> Parser_parse h rows = Inr csv
            \<and> writes w' = writes w @ [(csv_out h fname, csv)]
            \<and> (is_json r \<and> fst (writeFileSync h (disk w) (csv_out h fname) csv) = None
                \<or> (\<exists>m. r = ServerError (failure_body ''Failed to convert JSON to CSV.'' m)
                      \<and> fst (writeFileSync h (disk w) (csv_out h fname) csv) = Some m)))"
  proof
    assume eq: "jsonToCsv h req w = (r, w')"
    from jsonToCsv_cases [OF eq] show "writes w' = writes w \<and> \<not> is_json r
      \<or> (\<exists>fname text jsonData d items rows csv.
            filename req = Some fname
            \<and> readFileSync h (disk w) (json_in h fname) = Inr text
            \<and> JSON_parse h text = Inr jsonData
            \<and> (case jsonPath req of
                  None \<Rightarrow> Inr (Val jsonData)
                | Some p \<Rightarrow> if p \<noteq> [] then select_reduce (builtins h) jsonData p
                            else Inr (Val jsonData)) = Inr d
            \<and> array_items (builtins h) d = Some items
            \<and> flatten_all items = Inr rows
            \<and> Parser_parse h rows = Inr csv
            \<and> writes w' = writes w @ [(csv_out h fname, csv)]
            \<and> (is_json r \<and> fst (writeFileSync h (disk w) (csv_out h fname) csv) = None
                \<or> (\<exists>m. r = ServerError (failure_body ''Failed to convert JSON to CSV.'' m)
                      \<and> fst (writeFileSync h (disk w) (csv_out h fname) csv) = Some m)))"
    proof
      assume "writes w' = writes w \<and> \<not> is_json r"
      then show ?thesis by blast
    next
      assume "\<exists>fname. filename req = Some fname \<and> fname \<noteq> []
        \<and> existsSync h (disk w) (json_in h fname)
        \<and> jsonToCsv_try h (jsonPath req) (json_in h fname) (csv_out h fname) w = (r, w')"
      then obtain fname where f: "filename req = Some fname"
        and t: "jsonToCsv_try h (jsonPath req) (json_in h fname) (csv_out h fname) w = (r, w')"
        by blast
      from jsonToCsv_try_effect [OF t] show ?thesis
      proof
        assume "writes w' = writes w \<and> \<not> is_json r"
        then show ?thesis by blast
      next
        assume "\<exists>text jsonData d items rows csv.
          readFileSync h (disk w) (json_in h fname) = Inr text \<and> JSON_parse h text = Inr jsonData
          \<and> (case jsonPath req of
                None \<Rightarrow> Inr (Val jsonData)
              | Some p \<Rightarrow> if p \<noteq> [] then select_reduce (builtins h) jsonData p
                          else Inr (Val jsonData)) = Inr d
          \<and> array_items (builtins h) d = Some items
          \<and> flatten_all items = Inr rows
          \<and> Parser_parse h rows = Inr csv \<and> writes w' = writes w @ [(csv_out h fname, csv)]
          \<and> (is_json r \<and> fst (writeFileSync h (disk w) (csv_out h fname) csv) = None
              \<or> (\<exists>m. r = ServerError (failure_body ''Failed to convert JSON to CSV.'' m)
                    \<and> fst (writeFileSync h (disk w) (csv_out h fname) csv) = Some m))"
        then obtain content jsonData d items rows csv where
          "readFileSync h (disk w) (json_in h fname) = Inr content" "JSON_parse h content = Inr jsonData"
          "(case jsonPath req of
              None \<Rightarrow> Inr (Val jsonData)
            | Some p \<Rightarrow> if p \<noteq> [] then select_reduce (builtins h) jsonData p
                        else Inr (Val jsonData)) = Inr d"
          "array_items (builtins h) d = Some items"
          "flatten_all items = Inr rows" "Parser_parse h rows = Inr csv"
          "writes w' = writes w @ [(csv_out h fname, csv)]"
          "is_json r \<and> fst (writeFileSync h (disk w) (csv_out h fname) csv) = None
           \<or> (\<exists>m. r = ServerError (failure_body ''Failed to convert JSON to CSV.'' m)
                 \<and> fst (writeFileSync h (disk w) (csv_out h fname) csv) = Some m)"
          by blast
        with f have "filename req = Some fname
            \<and> readFileSync h (disk w) (json_in h fname) = Inr content
            \<and> JSON_parse h content = Inr jsonData
            \<and> (case jsonPath req of
                  None \<Rightarrow> Inr (Val jsonData)
                | Some p \<Rightarrow> if p \<noteq> [] then select_reduce (builtins h) jsonData p
                            else Inr (Val jsonData)) = Inr d
            \<and> array_items (builtins h) d = Some items
            \<and> flatten_all items = Inr rows
            \<and> Parser_parse h rows = Inr csv
            \<and> writes w' = writes w @ [(csv_out h fname, csv)]
            \<and> (is_json r \<and> fst (writeFileSync h (disk w) (csv_out h fname) csv) = None
                \<or> (\<exists>m. r = ServerError (failure_body ''Failed to convert JSON to CSV.'' m)
                      \<and> fst (writeFileSync h (disk w) (csv_out h fname) csv) = Some m))"
          by simp
        then show ?thesis
          apply -
          apply (rule disjI2)
          apply (rule exI [of _ fname])
          apply (rule exI [of _ content])
          apply (rule exI [of _ jsonData])
          apply (rule exI [of _ d])
          apply (rule exI [of _ items])
          apply (rule exI [of _ rows])
          apply (rule exI [of _ csv])
          apply assumption
          done
      qed
    qed
  qed
  have c: "convert h req w = (r, w') \<longrightarrow>
      writes w' = writes w \<and> \<not> is_json r
      \<or> (\<exists>fname (w2 :: 'fs world) xmlData rawJson d items rows csv.
            filename req = Some fname \<and> writes w2 = writes w
            \<and> readFileSync h (disk w2) (upload_in h fname) = Inr xmlData
            \<and> parseStringPromise h xmlData = Inr rawJson
            \<and> select_reduce (builtins h) (cleanJson rawJson) (path_or_default req) = Inr d
            \<and> array_items (builtins h) d = Some items
            \<and> flatten_all items = Inr rows
            \<and> Parser_parse h rows = Inr csv
            \<and> writes w' = writes w @ [(export_out h fname, csv)]
            \<and> (is_json r \<and> fst (writeFileSync h (disk w2) (export_out h fname) csv) = None
                \<or> (\<exists>m. r = ServerError (failure_body ''Failed to convert XML to JSON/CSV.'' m)
                      \<and> fst (writeFileSync h (disk w2) (export_out h fname) csv) = Some m)))"
  proof
    assume eq: "convert h req w = (r, w')"
    from convert_cases [OF eq] show "writes w' = writes w \<and> \<not> is_json r
      \<or> (\<exists>fname (w2 :: 'fs world) xmlData rawJson d items rows csv.
            filename req = Some fname \<and> writes w2 = writes w
            \<and> readFileSync h (disk w2) (upload_in h fname) = Inr xmlData
            \<and> parseStringPromise h xmlData = Inr rawJson
            \<and> select_reduce (builtins h) (cleanJson rawJson) (path_or_default req) = Inr d
            \<and> array_items (builtins h) d = Some items
            \<and> flatten_all items = Inr rows
            \<and> Parser_parse h rows = Inr csv
            \<and> writes w' = writes w @ [(export_out h fname, csv)]
            \<and> (is_json r \<and> fst (writeFileSync h (disk w2) (export_out h fname) csv) = None
                \<or> (\<exists>m. r = ServerError (failure_body ''Failed to convert XML to JSON/CSV.'' m)
                      \<and> fst (writeFileSync h (disk w2) (export_out h fname) csv) = Some m)))"
    proof
      assume "writes w' = writes w \<and> \<not> is_json r"
      then show ?thesis by blast
    next
      assume "\<exists>fname w2. filename req = Some fname \<and> fname \<noteq> [] \<and> writes w2 = writes w
        \<and> existsSync h (disk w2) (upload_in h fname)
        \<and> convert_try h (path_or_default req) (upload_in h fname) (export_out h fname) w2 = (r, w')"
      then obtain fname w2 where f: "filename req = Some fname" and wr: "writes w2 = writes w"
        and t: "convert_try h (path_or_default req) (upload_in h fname) (export_out h fname) w2 =
          (r, w')"
        by blast
      from convert_try_effect [OF t] show ?thesis
      proof
        assume "writes w' = writes w2 \<and> \<not> is_json r"
        with wr show ?thesis by simp
      next
        assume "\<exists>xmlData rawJson d items rows csv.
          readFileSync h (disk w2) (upload_in h fname) = Inr xmlData
          \<and> parseStringPromise h xmlData = Inr rawJson
          \<and> select_reduce (builtins h) (cleanJson rawJson) (path_or_default req) = Inr d
          \<and> array_items (builtins h) d = Some items
          \<and> flatten_all items = Inr rows
          \<and> Parser_parse h rows = Inr csv \<and> writes w' = writes w2 @ [(export_out h fname, csv)]
          \<and> (is_json r \<and> fst (writeFileSync h (disk w2) (export_out h fname) csv) = None
              \<or> (\<exists>m. r = ServerError (failure_body ''Failed to convert XML to JSON/CSV.'' m)
                    \<and> fst (writeFileSync h (disk w2) (export_out h fname) csv) = Some m))"
        then obtain xmlData rawJson d items rows csv where
          "readFileSync h (disk w2) (upload_in h fname) = Inr xmlData"
          "parseStringPromise h xmlData = Inr rawJson"
          "select_reduce (builtins h) (cleanJson rawJson) (path_or_default req) = Inr d"
          "array_items (builtins h) d = Some items"
          "flatten_all items = Inr rows" "Parser_parse h rows = Inr csv"
          "writes w' = writes w2 @ [(export_out h fname, csv)]"
          "is_json r \<and> fst (writeFileSync h (disk w2) (export_out h fname) csv) = None
           \<or> (\<exists>m. r = ServerError (failure_body ''Failed to convert XML to JSON/CSV.'' m)
                 \<and> fst (writeFileSync h (disk w2) (export_out h fname) csv) = Some m)"
          by blast
        with f wr have "filename req = Some fname \<and> writes w2 = writes w
            \<and> readFileSync h (disk w2) (upload_in h fname) = Inr xmlData
            \<and> parseStringPromise h xmlData = Inr rawJson
            \<and> select_reduce (builtins h) (cleanJson rawJson) (path_or_default req) = Inr d
            \<and> array_items (builtins h) d = Some items
            \<and> flatten_all items = Inr rows
            \<and> Parser_parse h rows = Inr csv
            \<and> writes w' = writes w @ [(export_out h fname, csv)]
            \<and> (is_json r \<and> fst (writeFileSync h (disk w2) (export_out h fname) csv) = None
                \<or> (\<exists>m. r = ServerError (failure_body ''Failed to convert XML to JSON/CSV.'' m)
                      \<and> fst (writeFileSync h (disk w2) (export_out h fname) csv) = Some m))"
          by simp
        then show ?thesis
          apply -
          apply (rule disjI2)
          apply (rule exI [of _ fname])
          apply (rule exI [of _ w2])
          apply (rule exI [of _ xmlData])
          apply (rule exI [of _ rawJson])
          apply (rule exI [of _ d])
          apply (rule exI [of _ items])
          apply (rule exI [of _ rows])
          apply (rule exI [of _ csv])
          apply assumption
          done
      qed
    qed
  qed
  have n: "(xmlToJson h req w = (r, w') \<or> jsonToCsv h req w = (r, w') \<or> convert h req w = (r, w'))
        \<and> (r = BadRequest b \<or> r = NotFound b \<or> r = Uncaught u) \<longrightarrow>
      writes w' = writes w"
    using x j c by (auto simp: failure_body_def)
  from x j c n show ?thesis by blast
qed

theorem write_only_after_success_witness:
  "jsonToCsv (demo_host True) \<lparr>filename = Some ''rows.json'', jsonPath = Some ''rows.x''\<rparr> demo_world =
     (BadRequest (error_body (no_path_msg (Some ''rows.x''))), demo_world)
   \<and> jsonToCsv (demo_host False) \<lparr>filename = Some ''list.json'', jsonPath = None\<rparr> demo_world =
       (ServerError (failure_body ''Failed to convert JSON to CSV.'' ''EACCES''),
        \<lparr>disk = disk demo_world,
         writes = [(''/app/api/controllers/../../templates/csv/list.csv'', ''csv'')]\<rparr>)
   \<and> xmlToJson (demo_host True) \<lparr>filename = Some ''item.xml'', jsonPath = None\<rparr> demo_world =
       (Json (JPlain [(''message'', JStr ''XML successfully converted to JSON and saved.''),
                    (''jsonFilePath'', JStr ''/app/api/controllers/../../templates/json/item.json''),
                    (''data'', JPlain [(''root'', JPlain [(''item'', JStr ''1'')])])]),
        \<lparr>disk = (''/app/api/controllers/../../templates/json/item.json'', ''{}'') # disk demo_world,
         writes = [(''/app/api/controllers/../../templates/json/item.json'', ''{}'')]\<rparr>)
   \<and> convert (demo_host True) \<lparr>filename = Some ''ops.xml'', jsonPath = None\<rparr> demo_world =
       (Json (JPlain [(''message'', JStr ''XML successfully converted to JSON and CSV.''),
                    (''data'', JPlain [(''clearing'', JPlain [(''operation'',
                       JArr [JPlain [(''id'', JStr ''1'')], JPlain [(''id'', JStr ''2'')]])])]),
                    (''csvFilePath'', JStr ''/app/api/controllers/../../exports/ops.csv'')]),
        \<lparr>disk = (''/app/api/controllers/../../exports/ops.csv'', ''csv'') # disk demo_world,
         writes = [(''/app/api/controllers/../../exports/ops.csv'', ''csv'')]\<rparr>)
   \<and> writes demo_world = []"
  using
    write_only_after_success
    [where h = "demo_host True" and req = "\<lparr>filename = Some ''rows.json'', jsonPath = Some ''rows.x''\<rparr>"
      and w = demo_world and r = "BadRequest (error_body (no_path_msg (Some ''rows.x'')))"
      and w' = demo_world, THEN conjunct2, THEN conjunct1]
    write_only_after_success
    [where h = "demo_host False" and req = "\<lparr>filename = Some ''list.json'', jsonPath = None\<rparr>"
      and w = demo_world
      and r = "ServerError (failure_body ''Failed to convert JSON to CSV.'' ''EACCES'')"
      and w' = "\<lparr>disk = disk demo_world,
         writes = [(''/app/api/controllers/../../templates/csv/list.csv'', ''csv'')]\<rparr>",
      THEN conjunct2, THEN conjunct1]
    write_only_after_success
    [where h = "demo_host True" and req = "\<lparr>filename = Some ''item.xml'', jsonPath = None\<rparr>"
      and w = demo_world
      and r = "Json (JPlain [(''message'', JStr ''XML successfully converted to JSON and saved.''),
                    (''jsonFilePath'', JStr ''/app/api/controllers/../../templates/json/item.json''),
                    (''data'', JPlain [(''root'', JPlain [(''item'', JStr ''1'')])])])"
      and w' = "\<lparr>disk = (''/app/api/controllers/../../templates/json/item.json'', ''{}'') # disk demo_world,
         writes = [(''/app/api/controllers/../../templates/json/item.json'', ''{}'')]\<rparr>",
      THEN conjunct1]
    write_only_after_success
    [where h = "demo_host True" and req = "\<lparr>filename = Some ''ops.xml'', jsonPath = None\<rparr>"
      and w = demo_world
      and r = "Json (JPlain [(''message'', JStr ''XML successfully converted to JSON and CSV.''),
                    (''data'', JPlain [(''clearing'', JPlain [(''operation'',
                       JArr [JPlain [(''id'', JStr ''1'')], JPlain [(''id'', JStr ''2'')]])])]),
                    (''csvFilePath'', JStr ''/app/api/controllers/../../exports/ops.csv'')])"
      and w' = "\<lparr>disk = (''/app/api/controllers/../../exports/ops.csv'', ''csv'') # disk demo_world,
         writes = [(''/app/api/controllers/../../exports/ops.csv'', ''csv'')]\<rparr>",
      THEN conjunct2, THEN conjunct2, THEN conjunct1]
  by (simp add: demo_run_absent_path demo_run_failed_write demo_run_xmlToJson demo_run_convert)
     (simp add: demo_world_def)

end
